theory Spec2Isabelle
  imports Complex_Main
begin

section \<open>Values exchanged with the device, the renderer and the application\<close>

text \<open>
  A JavaScript Number is modelled by the real number it denotes; NaN and the infinities
  are outside the model. What the host's arithmetic makes of an exact result is a
  parameter, see \<open>arithmetic\<close> below. A value that can be \<open>null\<close> or \<open>undefined\<close> is an
  \<open>option\<close>.
\<close>

record vec3 =
  vx :: real
  vy :: real
  vz :: real

record quat =
  qx :: real
  qy :: real
  qz :: real
  qw :: real

text \<open>An \<open>XRRigidTransform\<close>: what \<open>view.transform\<close> and \<open>jointPose.transform\<close> hold.\<close>

record rigid_transform =
  position :: vec3
  orientation :: quat

text \<open>An \<open>XRViewerPose\<close>; every view is given by its transform.\<close>

record pose =
  views :: "rigid_transform list"

type_synonym joint_space = nat
type_synonym ref_space = nat

text \<open>An \<open>XRHand\<close> is read with \<open>hand.get(name)\<close>, which is \<open>undefined\<close> for a missing key.\<close>

type_synonym xr_hand = "string \<rightharpoonup> joint_space"

record button =
  pressed :: bool

record xr_gamepad =
  buttons :: "button list"

record input_source =
  hand :: "xr_hand option"
  gamepad :: "xr_gamepad option"

datatype gesture = Pinch | Select

text \<open>
  What is thrown. The language itself throws a TypeError when a member of \<open>undefined\<close> or
  \<open>null\<close> is read, \<open>response.json()\<close> rejects with a SyntaxError, \<open>encodeURIComponent\<close>
  throws a URIError; \<open>FetchRejection\<close> is the reason a \<open>fetch\<close> promise is rejected with,
  and \<open>HostError\<close> any other exception of a host or library call, with its name.
\<close>

datatype js_error = TypeError | SyntaxError | URIError | FetchRejection | HostError string

text \<open>
  An \<open>XRFrame\<close> with its session. \<open>getViewerPose\<close> and \<open>getJointPose\<close> are calls into the
  host: they get the arguments exactly as the code passes them (a joint that \<open>hand.get\<close>
  did not find is \<open>undefined\<close>, a reference space that was never set is \<open>null\<close>) and either
  throw or return a pose or \<open>null\<close>. What the host does with which argument is not
  assumed. \<open>inputSources\<close> is \<open>frame.session.inputSources\<close>.
\<close>

record xr_frame =
  getViewerPose :: "ref_space option \<Rightarrow> js_error + pose option"
  getJointPose :: "joint_space option \<Rightarrow> ref_space option \<Rightarrow> js_error + rigid_transform option"
  inputSources :: "input_source list"

text \<open>
  A call either returns, or throws with the state as it was when the exception left it.
  For the asynchronous result handler \<open>Done\<close> is a fulfilled promise and \<open>Throw\<close> a
  rejected one.
\<close>

datatype 's outcome = is_Done: Done (state_of: 's) | Throw js_error (state_of: 's)

definition bind_outcome :: "'s outcome \<Rightarrow> ('s \<Rightarrow> 's outcome) \<Rightarrow> 's outcome" where
  "bind_outcome r f = (case r of Done s \<Rightarrow> f s | Throw e s \<Rightarrow> Throw e s)"

subsection \<open>Number arithmetic\<close>

text \<open>
  The host's arithmetic: \<open>rounded\<close> gives the Number that stands for an exact result (of
  a decimal literal, of \<open>+\<close>, \<open>-\<close> and \<open>*\<close>), \<open>math_sqrt\<close> is \<open>Math.sqrt\<close>. The code is
  modelled for every such arithmetic; two of them are defined here.
\<close>

record arithmetic =
  rounded :: "real \<Rightarrow> real"
  math_sqrt :: "real \<Rightarrow> real"

text \<open>Arithmetic without rounding.\<close>

definition exact :: arithmetic where
  "exact = \<lparr>rounded = (\<lambda>x. x), math_sqrt = sqrt\<rparr>"

text \<open>
  IEEE 754 binary64 with rounding to nearest, ties to even, which is the arithmetic of
  JavaScript engines: a result is rounded to 53 significant bits, or to a multiple of
  \<open>2 powr -1074\<close> in the subnormal range. Overflow to infinity is outside the model.
\<close>

definition round_half_even :: "real \<Rightarrow> int" where
  "round_half_even r =
    (let f = \<lfloor>r\<rfloor>
     in if r - of_int f < 1 / 2 then f
        else if 1 / 2 < r - of_int f then f + 1
        else if even f then f else f + 1)"

definition binary64 :: "real \<Rightarrow> real" where
  "binary64 x =
    (if x = 0 then 0
     else (let u = 2 powr of_int (max (\<lfloor>log 2 \<bar>x\<bar>\<rfloor> - 52) (- 1074))
           in sgn x * (u * of_int (round_half_even (\<bar>x\<bar> / u)))))"

definition double :: arithmetic where
  "double = \<lparr>rounded = binary64, math_sqrt = (\<lambda>x. binary64 (sqrt x))\<rparr>"

subsection \<open>Scene content\<close>

type_synonym material_ref = nat
type_synonym colour = nat

text \<open>
  A mesh refers to its material; materials live in a store, since two meshes may share
  one and \<open>material.color.set\<close> writes the material, not the mesh.
\<close>

record scene_object =
  geometry :: vec3
  material :: material_ref
  mesh_position :: vec3

record hit =
  distance :: real
  object :: scene_object

text \<open>
  \<open>Raycaster.intersectObjects\<close> of the three library is not part of the repository: it is
  a parameter, from the ray (origin, direction) and the objects to the hits.
\<close>

type_synonym raycaster = "vec3 \<times> vec3 \<Rightarrow> scene_object list \<Rightarrow> hit list"

record camera =
  cam_position :: vec3
  cam_quaternion :: quat

subsection \<open>Voice input\<close>

text \<open>A JavaScript string is a sequence of UTF-16 code units.\<close>

type_synonym js_string = "nat list"

type_synonym payload = "(string \<times> string) list"

record recognition =
  continuous :: bool
  lang :: string
  started :: bool

record request =
  query :: js_string
  bearer :: "string option"

text \<open>
  What \<open>fetch\<close> followed by \<open>response.json()\<close> can give: a rejected request, or a
  response with its HTTP status and a body that does not parse, that is the JSON value
  \<open>null\<close>, or that is a value whose \<open>entities\<close> member may be missing (a JSON number,
  string or boolean has no such member either).
\<close>

datatype response_body = NotJson | JsonNull | JsonValue "payload option"

datatype fetch_outcome = FetchFailed | Response nat response_body

text \<open>The results of a speech event: for each result the transcripts of its alternatives.\<close>

record speech_event =
  results :: "js_string list list"

section \<open>The OpenAVR object\<close>

text \<open>
  The fields of \<open>this\<close> that the core reads or writes. The application's own state is
  \<open>app\<close>; a callback is a function on it and is taken to return normally.
  \<open>actionBtnClicks\<close> counts the calls of \<open>click()\<close> on the \<open>#actionBtn\<close> element of the
  GUI container, \<open>requestedFrames\<close> the calls of \<open>session.requestAnimationFrame\<close> made by
  the frame callback. \<open>windowSize\<close> is the inner size of the window, which the host may
  change between frames. \<open>voice\<close> is the recognition object that \<open>initVoiceInput\<close> creates
  and starts, with its result handler; it stays \<open>None\<close> when \<open>initVoiceInput\<close> returns
  early. \<open>gestureLog\<close> and \<open>voiceLog\<close> list the calls of \<open>this.onGesture\<close> and of
  \<open>this.onVoiceCommand\<close> with their argument, oldest first: they are how an emitted
  event is observed whatever the callback does.
\<close>

record 'a openavr =
  mode :: string
  renderer :: "nat option"
  onGesture :: "gesture \<Rightarrow> 'a \<Rightarrow> 'a"
  onVoiceCommand :: "payload option \<Rightarrow> 'a \<Rightarrow> 'a"
  witToken :: "string option"
  xrReferenceSpace :: "ref_space option"
  camera :: camera
  scene :: "scene_object list"
  materials :: "material_ref \<rightharpoonup> colour"
  ray :: "vec3 \<times> vec3"
  actionBtnClicks :: nat
  windowSize :: "nat \<times> nat"
  rendererSize :: "nat \<times> nat"
  animationLoop :: bool
  voice :: "recognition option"
  requestedFrames :: nat
  gestureLog :: "gesture list"
  voiceLog :: "payload option list"
  app :: 'a

section \<open>Geometry\<close>

definition forward :: vec3 where
  "forward = \<lparr>vx = 0, vy = 0, vz = - 1\<rparr>"

definition magnitude :: "vec3 \<Rightarrow> real" where
  "magnitude v = sqrt (vx v * vx v + vy v * vy v + vz v * vz v)"

text \<open>
  Modelled from the spec: \<open>Vector3.applyQuaternion\<close> belongs to the three library and is
  not under src/. The spec says it rotates the direction by a unit quaternion: the vector,
  as a pure quaternion, is multiplied by \<open>q\<close> on the left and by the conjugate of \<open>q\<close> on
  the right.
\<close>

definition applyQuaternion :: "vec3 \<Rightarrow> quat \<Rightarrow> vec3" where
  "applyQuaternion v q =
    (let ix = qw q * vx v + qy q * vz v - qz q * vy v;
         iy = qw q * vy v + qz q * vx v - qx q * vz v;
         iz = qw q * vz v + qx q * vy v - qy q * vx v;
         iw = - qx q * vx v - qy q * vy v - qz q * vz v
     in \<lparr>vx = ix * qw q + iw * - qx q + iy * - qz q - iz * - qy q,
         vy = iy * qw q + iw * - qy q + iz * - qx q - ix * - qz q,
         vz = iz * qw q + iw * - qz q + ix * - qy q - iy * - qx q\<rparr>)"

text \<open>The Euclidean distance of the spec, as a real number.\<close>

definition distance3D :: "vec3 \<Rightarrow> vec3 \<Rightarrow> real" where
  "distance3D a b = sqrt ((vx a - vx b)\<^sup>2 + (vy a - vy b)\<^sup>2 + (vz a - vz b)\<^sup>2)"

text \<open>
  The same distance as the host computes it from the code's expression
  \<open>Math.sqrt(dx * dx + dy * dy + dz * dz)\<close>, every operation rounded.
\<close>

definition computed_distance :: "arithmetic \<Rightarrow> vec3 \<Rightarrow> vec3 \<Rightarrow> real" where
  "computed_distance ar a b =
    (let dx = rounded ar (vx a - vx b);
         dy = rounded ar (vy a - vy b);
         dz = rounded ar (vz a - vz b)
     in math_sqrt ar
          (rounded ar (rounded ar (rounded ar (dx * dx) + rounded ar (dy * dy)) +
             rounded ar (dz * dz))))"

section \<open>Pose Mapper\<close>

text \<open>
  \<open>pose.views[0]\<close> of an empty array is \<open>undefined\<close>, and reading \<open>transform\<close> of
  \<open>undefined\<close> throws a TypeError before the camera is written.
\<close>

definition updateCameraFromPose :: "pose \<Rightarrow> 'a openavr \<Rightarrow> 'a openavr outcome" where
  "updateCameraFromPose p st =
    (case views p of
       [] \<Rightarrow> Throw TypeError st
     | view # _ \<Rightarrow>
         (let pos = position view; ori = orientation view
          in Done (st\<lparr>camera := \<lparr>cam_position = pos, cam_quaternion = ori\<rparr>\<rparr>)))"

section \<open>Gesture Detector\<close>

definition emitGesture :: "gesture \<Rightarrow> 'a openavr \<Rightarrow> 'a openavr" where
  "emitGesture g st = st\<lparr>gestureLog := gestureLog st @ [g], app := onGesture st g (app st)\<rparr>"

definition clickActionBtn :: "'a openavr \<Rightarrow> 'a openavr" where
  "clickActionBtn st = st\<lparr>actionBtnClicks := Suc (actionBtnClicks st)\<rparr>"

text \<open>
  The two joints go to \<open>frame.getJointPose\<close> as \<open>hand.get\<close> returned them; an exception
  of either call leaves \<open>detectGestures\<close>. The literal \<open>0.02\<close> is the Number the host reads
  it as.
\<close>

definition detectGestures ::
  "arithmetic \<Rightarrow> xr_hand \<Rightarrow> xr_frame \<Rightarrow> 'a openavr \<Rightarrow> 'a openavr outcome" where
  "detectGestures ar h frame st =
    (let indexTip = h ''index-finger-tip'';
         thumbTip = h ''thumb-tip''
     in case getJointPose frame indexTip (xrReferenceSpace st) of
          Inl e \<Rightarrow> Throw e st
        | Inr indexPose \<Rightarrow>
            (case getJointPose frame thumbTip (xrReferenceSpace st) of
               Inl e \<Rightarrow> Throw e st
             | Inr thumbPose \<Rightarrow>
                 (case (indexPose, thumbPose) of
                    (Some ip, Some tp) \<Rightarrow>
                      (let dx = rounded ar (vx (position ip) - vx (position tp));
                           dy = rounded ar (vy (position ip) - vy (position tp));
                           dz = rounded ar (vz (position ip) - vz (position tp));
                           dist = math_sqrt ar
                             (rounded ar (rounded ar (rounded ar (dx * dx) + rounded ar (dy * dy)) +
                                rounded ar (dz * dz)))
                       in if dist < rounded ar 0.02
                          then Done (clickActionBtn (emitGesture Pinch st))
                          else Done st)
                  | _ \<Rightarrow> Done st)))"

definition detectControllerInput :: "input_source \<Rightarrow> 'a openavr \<Rightarrow> 'a openavr outcome" where
  "detectControllerInput src st =
    (case gamepad src of
       None \<Rightarrow> Throw TypeError st
     | Some g \<Rightarrow>
         (case buttons g of
            [] \<Rightarrow> Throw TypeError st
          | b # _ \<Rightarrow> if pressed b then Done (emitGesture Select st) else Done st))"

section \<open>Gaze Resolver\<close>

definition detectGaze :: "raycaster \<Rightarrow> pose \<Rightarrow> 'a openavr \<Rightarrow> 'a openavr outcome" where
  "detectGaze intersectObjects p st =
    (case views p of
       [] \<Rightarrow> Throw TypeError st
     | view # _ \<Rightarrow>
         (let quaternion = orientation view;
              gazeDirection = applyQuaternion forward quaternion;
              st1 = st\<lparr>ray := (cam_position (camera st), gazeDirection)\<rparr>;
              intersects = intersectObjects (ray st1) (scene st1)
          in case intersects of
               [] \<Rightarrow> Done st1
             | h # _ \<Rightarrow>
                 Done (st1\<lparr>materials := (materials st1)(material (object h) \<mapsto> 0xff0000)\<rparr>)))"

section \<open>Frame Loop Controller\<close>

text \<open>The body of the loop over \<open>session.inputSources\<close>, then the loop.\<close>

definition processInputSource ::
  "arithmetic \<Rightarrow> xr_frame \<Rightarrow> input_source \<Rightarrow> 'a openavr \<Rightarrow> 'a openavr outcome" where
  "processInputSource ar frame src st =
    bind_outcome
      (case hand src of None \<Rightarrow> Done st | Some h \<Rightarrow> detectGestures ar h frame st)
      (\<lambda>s. case gamepad src of None \<Rightarrow> Done s | Some g \<Rightarrow> detectControllerInput src s)"

fun processInputSources ::
  "arithmetic \<Rightarrow> xr_frame \<Rightarrow> input_source list \<Rightarrow> 'a openavr \<Rightarrow> 'a openavr outcome" where
  "processInputSources ar frame [] st = Done st"
| "processInputSources ar frame (src # rest) st =
     bind_outcome (processInputSource ar frame src st) (processInputSources ar frame rest)"

text \<open>
  \<open>getViewerPose\<close> is called first; \<open>setSize\<close> and \<open>setAnimationLoop\<close> follow, then the
  pose branch, the loop and the request for the next frame.
\<close>

definition onXRFrame ::
  "arithmetic \<Rightarrow> raycaster \<Rightarrow> xr_frame \<Rightarrow> 'a openavr \<Rightarrow> 'a openavr outcome" where
  "onXRFrame ar intersectObjects frame st =
    (case getViewerPose frame (xrReferenceSpace st) of
       Inl e \<Rightarrow> Throw e st
     | Inr p \<Rightarrow>
         (let st1 = st\<lparr>rendererSize := windowSize st, animationLoop := True\<rparr>
          in bind_outcome
               (case p of
                  None \<Rightarrow> Done st1
                | Some vp \<Rightarrow>
                    bind_outcome (updateCameraFromPose vp st1) (detectGaze intersectObjects vp))
               (\<lambda>st2. bind_outcome (processInputSources ar frame (inputSources frame) st2)
                  (\<lambda>st3. Done (st3\<lparr>requestedFrames := Suc (requestedFrames st3)\<rparr>)))))"

section \<open>Voice Intent Relay\<close>

text \<open>
  The host at construction: whether \<open>window.SpeechRecognition\<close> or its prefixed form
  exists, the inner size of the window, whether \<open>document.body\<close> is an element (it is
  \<open>null\<close> while the document has no body), and the exception, if any, that
  \<open>new THREE.WebGLRenderer\<close> throws (it throws when no WebGL context can be created).
\<close>

record environment =
  speechRecognition :: bool
  innerSize :: "nat \<times> nat"
  documentBody :: bool
  rendererFailure :: "js_error option"

definition initVoiceInput :: "environment \<Rightarrow> 'a openavr \<Rightarrow> 'a openavr" where
  "initVoiceInput env st =
    (if \<not> speechRecognition env \<or> witToken st = None then st
     else st\<lparr>voice := Some \<lparr>continuous = True, lang = ''en-US'', started = True\<rparr>\<rparr>)"

text \<open>
  \<open>String.prototype.trim\<close> removes white space and line terminators at both ends: TAB,
  LF, VT, FF, CR, SPACE, NO-BREAK SPACE, the space separators U+1680, U+2000 to U+200A,
  U+202F, U+205F and U+3000, the line and paragraph separators U+2028 and U+2029, and
  U+FEFF.
\<close>

definition whitespace :: "nat \<Rightarrow> bool" where
  "whitespace c =
    (c \<in> set [0x09, 0x0A, 0x0B, 0x0C, 0x0D, 0x20, 0xA0, 0x1680, 0x2028, 0x2029, 0x202F,
              0x205F, 0x3000, 0xFEFF] \<or> (0x2000 \<le> c \<and> c \<le> 0x200A))"

definition trim :: "js_string \<Rightarrow> js_string" where
  "trim s = rev (dropWhile whitespace (rev (dropWhile whitespace s)))"

text \<open>
  \<open>encodeURIComponent\<close> throws a URIError on a surrogate code unit that is not part of a
  pair. The percent-encoding itself is a matter of transport: the request is modelled by
  the text it carries.
\<close>

fun paired_surrogates :: "js_string \<Rightarrow> bool" where
  "paired_surrogates [] = True"
| "paired_surrogates (c # cs) =
     (if 0xD800 \<le> c \<and> c \<le> 0xDBFF
      then (case cs of
              [] \<Rightarrow> False
            | d # ds \<Rightarrow> 0xDC00 \<le> d \<and> d \<le> 0xDFFF \<and> paired_surrogates ds)
      else if 0xDC00 \<le> c \<and> c \<le> 0xDFFF then False
      else paired_surrogates cs)"

definition encodeURIComponent :: "js_string \<Rightarrow> js_error + js_string" where
  "encodeURIComponent s = (if paired_surrogates s then Inr s else Inl URIError)"

text \<open>
  The \<open>onresult\<close> handler, run to the end of its promise: \<open>fetch\<close> answers the request
  for the trimmed transcript of the first alternative of the last result. The handler
  never reads the status of the response, and nothing in it catches: an exception or a
  rejected \<open>await\<close> rejects the handler's own promise.
\<close>

definition onresult ::
  "(request \<Rightarrow> fetch_outcome) \<Rightarrow> speech_event \<Rightarrow> 'a openavr \<Rightarrow> 'a openavr outcome" where
  "onresult fetch event st =
    (case results event of
       [] \<Rightarrow> Throw TypeError st
     | _ # _ \<Rightarrow>
         (case last (results event) of
            [] \<Rightarrow> Throw TypeError st
          | alternative # _ \<Rightarrow>
              (let transcript = trim alternative
               in case encodeURIComponent transcript of
                    Inl e \<Rightarrow> Throw e st
                  | Inr q \<Rightarrow>
                      (case fetch \<lparr>query = q, bearer = witToken st\<rparr> of
                         FetchFailed \<Rightarrow> Throw FetchRejection st
                       | Response status NotJson \<Rightarrow> Throw SyntaxError st
                       | Response status JsonNull \<Rightarrow> Throw TypeError st
                       | Response status (JsonValue entities) \<Rightarrow>
                           Done (st\<lparr>voiceLog := voiceLog st @ [entities],
                                    app := onVoiceCommand st entities (app st)\<rparr>)))))"

section \<open>Construction\<close>

text \<open>
  The options object; an omitted member is \<open>None\<close>. \<open>a || b\<close> takes \<open>b\<close> when \<open>a\<close> is
  falsy: missing, or the empty string.
\<close>

record 'a options =
  opt_mode :: "string option"
  opt_renderer :: "nat option"
  opt_onGesture :: "(gesture \<Rightarrow> 'a \<Rightarrow> 'a) option"
  opt_onVoiceCommand :: "(payload option \<Rightarrow> 'a \<Rightarrow> 'a) option"
  opt_witToken :: "string option"

datatype 'o js_argument = Undefined | Null | Object 'o

definition truthy :: "string option \<Rightarrow> string option" where
  "truthy v = (case v of None \<Rightarrow> None | Some s \<Rightarrow> if s = [] then None else Some s)"

text \<open>
  The box mesh of \<open>create3DGUI\<close>. Its material is the first one allocated: it has
  reference 0 in the store, which is empty when the constructor runs.
\<close>

definition buttonMesh :: scene_object where
  "buttonMesh = \<lparr>geometry = \<lparr>vx = 0.2, vy = 0.1, vz = 0.02\<rparr>, material = 0,
                  mesh_position = \<lparr>vx = 0, vy = 1.5, vz = - 2\<rparr>\<rparr>"

definition create3DGUI :: "'a openavr \<Rightarrow> 'a openavr" where
  "create3DGUI st =
    st\<lparr>scene := scene st @ [buttonMesh], materials := (materials st)(0 \<mapsto> 0x00ff00)\<rparr>"

text \<open>The fields as lines 5 to 21 of the constructor leave them.\<close>

definition fields :: "'a options \<Rightarrow> environment \<Rightarrow> 'a \<Rightarrow> 'a openavr" where
  "fields opts env a =
    \<lparr>mode = (case truthy (opt_mode opts) of None \<Rightarrow> ''AR'' | Some m \<Rightarrow> m),
     renderer = opt_renderer opts,
     onGesture = (case opt_onGesture opts of None \<Rightarrow> (\<lambda>_ s. s) | Some f \<Rightarrow> f),
     onVoiceCommand = (case opt_onVoiceCommand opts of None \<Rightarrow> (\<lambda>_ s. s) | Some f \<Rightarrow> f),
     witToken = truthy (opt_witToken opts),
     xrReferenceSpace = None,
     camera = \<lparr>cam_position = \<lparr>vx = 0, vy = 0, vz = 0\<rparr>,
               cam_quaternion = \<lparr>qx = 0, qy = 0, qz = 0, qw = 1\<rparr>\<rparr>,
     scene = [],
     materials = Map.empty,
     ray = (\<lparr>vx = 0, vy = 0, vz = 0\<rparr>, \<lparr>vx = 0, vy = 0, vz = - 1\<rparr>),
     actionBtnClicks = 0,
     windowSize = innerSize env,
     rendererSize = (300, 150),
     animationLoop = False,
     voice = None,
     requestedFrames = 0,
     gestureLog = [],
     voiceLog = [],
     app = a\<rparr>"

text \<open>
  The constructor for an options object. \<open>document.body.appendChild(this.canvas)\<close> reads a
  member of \<open>document.body\<close> and throws a TypeError when that is \<open>null\<close>; then
  \<open>new THREE.WebGLRenderer\<close> may throw; \<open>createHTMLGUI\<close>, \<open>initVoiceInput\<close> and
  \<open>create3DGUI\<close> follow.
\<close>

definition construct :: "'a options \<Rightarrow> environment \<Rightarrow> 'a \<Rightarrow> js_error + 'a openavr" where
  "construct opts env a =
    (if \<not> documentBody env then Inl TypeError
     else case rendererFailure env of
            Some e \<Rightarrow> Inl e
          | None \<Rightarrow> Inr (create3DGUI (initVoiceInput env (fields opts env a))))"

text \<open>
  \<open>constructor(options = {})\<close>: the default stands in for \<open>undefined\<close> only, and reading a
  member of \<open>null\<close> throws.
\<close>

definition new_OpenAVR :: "'a options js_argument \<Rightarrow> environment \<Rightarrow> 'a \<Rightarrow> js_error + 'a openavr" where
  "new_OpenAVR arg env a =
    (case arg of
       Undefined \<Rightarrow>
         construct \<lparr>opt_mode = None, opt_renderer = None, opt_onGesture = None,
                     opt_onVoiceCommand = None, opt_witToken = None\<rparr> env a
     | Null \<Rightarrow> Inl TypeError
     | Object opts \<Rightarrow> construct opts env a)"

section \<open>What a frame is expected to emit\<close>

text \<open>
  These follow the words of the specification, to be compared with the code: a hand
  pinches when both joint poses resolve and their distance, as the host computes it, is
  below the threshold; a gamepad selects when its first button is pressed.
\<close>

definition pinching :: "arithmetic \<Rightarrow> xr_frame \<Rightarrow> ref_space option \<Rightarrow> xr_hand \<Rightarrow> bool" where
  "pinching ar frame space h =
    (case (getJointPose frame (h ''index-finger-tip'') space,
           getJointPose frame (h ''thumb-tip'') space) of
       (Inr (Some ip), Inr (Some tp)) \<Rightarrow>
         computed_distance ar (position ip) (position tp) < rounded ar 0.02
     | _ \<Rightarrow> False)"

definition hand_gestures ::
  "arithmetic \<Rightarrow> xr_frame \<Rightarrow> ref_space option \<Rightarrow> input_source \<Rightarrow> gesture list" where
  "hand_gestures ar frame space src =
    (case hand src of
       None \<Rightarrow> []
     | Some h \<Rightarrow> if pinching ar frame space h then [Pinch] else [])"

definition gamepad_gestures :: "input_source \<Rightarrow> gesture list" where
  "gamepad_gestures src =
    (case gamepad src of
       None \<Rightarrow> []
     | Some g \<Rightarrow> (case buttons g of [] \<Rightarrow> [] | b # _ \<Rightarrow> if pressed b then [Select] else []))"

definition source_gestures ::
  "arithmetic \<Rightarrow> xr_frame \<Rightarrow> ref_space option \<Rightarrow> input_source \<Rightarrow> gesture list" where
  "source_gestures ar frame space src = hand_gestures ar frame space src @ gamepad_gestures src"

text \<open>
  The exception that reading an input source raises, if any: the first one thrown by the
  two joint lookups of its hand, else the TypeError of a gamepad without a first button.
  An input source can be read when there is none.
\<close>

definition hand_error :: "xr_frame \<Rightarrow> ref_space option \<Rightarrow> input_source \<Rightarrow> js_error option" where
  "hand_error frame space src =
    (case hand src of
       None \<Rightarrow> None
     | Some h \<Rightarrow>
         (case getJointPose frame (h ''index-finger-tip'') space of
            Inl e \<Rightarrow> Some e
          | Inr _ \<Rightarrow>
              (case getJointPose frame (h ''thumb-tip'') space of
                 Inl e \<Rightarrow> Some e
               | Inr _ \<Rightarrow> None)))"

definition source_error :: "xr_frame \<Rightarrow> ref_space option \<Rightarrow> input_source \<Rightarrow> js_error option" where
  "source_error frame space src =
    (case hand_error frame space src of
       Some e \<Rightarrow> Some e
     | None \<Rightarrow>
         (case gamepad src of
            None \<Rightarrow> None
          | Some g \<Rightarrow> if buttons g = [] then Some TypeError else None))"

definition source_ok :: "xr_frame \<Rightarrow> ref_space option \<Rightarrow> input_source \<Rightarrow> bool" where
  "source_ok frame space src = (source_error frame space src = None)"

text \<open>The pose branch of a frame returns: no viewer pose, or one with a first view.\<close>

definition pose_readable :: "xr_frame \<Rightarrow> ref_space option \<Rightarrow> bool" where
  "pose_readable frame space =
    (case getViewerPose frame space of
       Inl _ \<Rightarrow> False
     | Inr None \<Rightarrow> True
     | Inr (Some p) \<Rightarrow> views p \<noteq> [])"

text \<open>The colour a scene object is drawn with: the colour of its material.\<close>

definition shown_colour :: "'a openavr \<Rightarrow> scene_object \<Rightarrow> colour option" where
  "shown_colour st obj = materials st (material obj)"

section \<open>A session for worked examples\<close>

definition host :: environment where
  "host = \<lparr>speechRecognition = True, innerSize = (1280, 720), documentBody = True,
            rendererFailure = None\<rparr>"

text \<open>A host that cannot create a WebGL context.\<close>

definition host_without_webgl :: environment where
  "host_without_webgl = host\<lparr>rendererFailure := Some (HostError ''Error'')\<rparr>"

text \<open>The options of \<open>example.js\<close>, with the callbacks left to their defaults.\<close>

definition example_options :: "unit options" where
  "example_options =
    \<lparr>opt_mode = Some ''AR'', opt_renderer = Some 0, opt_onGesture = None,
     opt_onVoiceCommand = None, opt_witToken = Some ''YOUR_WIT_AI_TOKEN''\<rparr>"

text \<open>The object of \<open>example.js\<close> once \<open>initXR\<close> has stored the reference space.\<close>

definition example_avr :: "unit openavr" where
  "example_avr = (projr (new_OpenAVR (Object example_options) host ()))\<lparr>xrReferenceSpace := Some 0\<rparr>"

definition at_point :: "real \<Rightarrow> real \<Rightarrow> real \<Rightarrow> rigid_transform" where
  "at_point a b c =
    \<lparr>position = \<lparr>vx = a, vy = b, vz = c\<rparr>, orientation = \<lparr>qx = 0, qy = 0, qz = 0, qw = 1\<rparr>\<rparr>"

definition example_hand :: xr_hand where
  "example_hand = [''index-finger-tip'' \<mapsto> 0, ''thumb-tip'' \<mapsto> 1]"

text \<open>
  An example host. Like the WebXR bindings of browsers it refuses a joint that is
  \<open>undefined\<close> and a reference space that is \<open>null\<close> with a TypeError; otherwise it
  answers from a table of tracked joints, and with a given viewer pose.
\<close>

definition joints_at ::
  "(joint_space \<rightharpoonup> rigid_transform) \<Rightarrow> joint_space option \<Rightarrow> ref_space option \<Rightarrow>
    js_error + rigid_transform option" where
  "joints_at tracked joint space =
    (case joint of
       None \<Rightarrow> Inl TypeError
     | Some j \<Rightarrow> (case space of None \<Rightarrow> Inl TypeError | Some _ \<Rightarrow> Inr (tracked j)))"

definition viewer_at :: "pose option \<Rightarrow> ref_space option \<Rightarrow> js_error + pose option" where
  "viewer_at p space = (case space of None \<Rightarrow> Inl TypeError | Some _ \<Rightarrow> Inr p)"

text \<open>
  A frame without a viewer pose, with one hand: the index tip at (0, 1, 0) and the thumb
  tip at (0, 1, \<open>d\<close>).
\<close>

definition hand_frame :: "real \<Rightarrow> xr_frame" where
  "hand_frame d =
    \<lparr>getViewerPose = viewer_at None,
     getJointPose = joints_at [0 \<mapsto> at_point 0 1 0, 1 \<mapsto> at_point 0 1 d],
     inputSources = [\<lparr>hand = Some example_hand, gamepad = None\<rparr>]\<rparr>"

text \<open>
  The index tip at (0.0131, 0.015112577543225376, 0) and the thumb tip at the origin: the
  Euclidean distance of the two Numbers is below 0.02, the computed one is not.
\<close>

definition boundary_frame :: xr_frame where
  "boundary_frame =
    \<lparr>getViewerPose = viewer_at None,
     getJointPose = joints_at
       [0 \<mapsto> at_point (binary64 0.0131) (binary64 0.015112577543225376) 0,
        1 \<mapsto> at_point 0 0 0],
     inputSources = [\<lparr>hand = Some example_hand, gamepad = None\<rparr>]\<rparr>"

text \<open>The same hand when tracking of the thumb tip is lost.\<close>

definition lost_thumb_frame :: xr_frame where
  "lost_thumb_frame =
    \<lparr>getViewerPose = viewer_at None,
     getJointPose = joints_at [0 \<mapsto> at_point 0 1 0],
     inputSources = [\<lparr>hand = Some example_hand, gamepad = None\<rparr>]\<rparr>"

definition empty_pose_frame :: xr_frame where
  "empty_pose_frame =
    \<lparr>getViewerPose = viewer_at (Some \<lparr>views = []\<rparr>), getJointPose = joints_at Map.empty,
     inputSources = []\<rparr>"

text \<open>A frame without a viewer pose whose only input source is a gamepad without buttons.\<close>

definition bare_gamepad_frame :: xr_frame where
  "bare_gamepad_frame =
    \<lparr>getViewerPose = viewer_at None, getJointPose = joints_at Map.empty,
     inputSources = [\<lparr>hand = None, gamepad = Some \<lparr>buttons = []\<rparr>\<rparr>]\<rparr>"

text \<open>The same gamepad, followed by a hand that pinches.\<close>

definition gamepad_then_hand_frame :: xr_frame where
  "gamepad_then_hand_frame =
    \<lparr>getViewerPose = viewer_at None,
     getJointPose = joints_at [0 \<mapsto> at_point 0 1 0, 1 \<mapsto> at_point 0 1 (binary64 0.01)],
     inputSources = [\<lparr>hand = None, gamepad = Some \<lparr>buttons = []\<rparr>\<rparr>,
                     \<lparr>hand = Some example_hand, gamepad = None\<rparr>]\<rparr>"

text \<open>A pressed controller next to a pinching hand, without a viewer pose.\<close>

definition controller_and_hand_frame :: xr_frame where
  "controller_and_hand_frame =
    \<lparr>getViewerPose = viewer_at None,
     getJointPose = joints_at [0 \<mapsto> at_point 0 1 0, 1 \<mapsto> at_point 0 1 (binary64 0.01)],
     inputSources = [\<lparr>hand = None, gamepad = Some \<lparr>buttons = [\<lparr>pressed = True\<rparr>]\<rparr>\<rparr>,
                     \<lparr>hand = Some example_hand, gamepad = None\<rparr>]\<rparr>"

text \<open>
  A viewer pose with one view; a pinching hand, then a gamepad without buttons, then a
  pressed controller.
\<close>

definition level_pose :: pose where
  "level_pose = \<lparr>views = [at_point 0 1.6 0]\<rparr>"

definition hand_then_gamepad_frame :: xr_frame where
  "hand_then_gamepad_frame =
    \<lparr>getViewerPose = viewer_at (Some level_pose),
     getJointPose = joints_at [0 \<mapsto> at_point 0 1 0, 1 \<mapsto> at_point 0 1 (binary64 0.01)],
     inputSources = [\<lparr>hand = Some example_hand, gamepad = None\<rparr>,
                     \<lparr>hand = None, gamepad = Some \<lparr>buttons = []\<rparr>\<rparr>,
                     \<lparr>hand = None, gamepad = Some \<lparr>buttons = [\<lparr>pressed = True\<rparr>]\<rparr>\<rparr>]\<rparr>"

text \<open>A second mesh, added by the application with a material of its own.\<close>

definition second_mesh :: scene_object where
  "second_mesh = \<lparr>geometry = \<lparr>vx = 1, vy = 1, vz = 1\<rparr>, material = 1,
                   mesh_position = \<lparr>vx = 0, vy = 1.5, vz = - 5\<rparr>\<rparr>"

definition two_mesh_avr :: "unit openavr" where
  "two_mesh_avr = example_avr\<lparr>scene := scene example_avr @ [second_mesh],
     materials := (materials example_avr)(1 \<mapsto> 0x0000ff)\<rparr>"

text \<open>A ray caster that reports both meshes, the button first.\<close>

definition two_hits :: raycaster where
  "two_hits =
    (\<lambda>_ _. [\<lparr>distance = 2, object = buttonMesh\<rparr>, \<lparr>distance = 5, object = second_mesh\<rparr>])"

text \<open>
  A mesh that the application builds with the material of the button, away from the gaze
  ray, and a ray caster that reports the button only.
\<close>

definition twin_mesh :: scene_object where
  "twin_mesh = \<lparr>geometry = \<lparr>vx = 1, vy = 1, vz = 1\<rparr>, material = 0,
                 mesh_position = \<lparr>vx = 3, vy = 1.5, vz = 4\<rparr>\<rparr>"

definition shared_material_avr :: "unit openavr" where
  "shared_material_avr = example_avr\<lparr>scene := scene example_avr @ [twin_mesh]\<rparr>"

definition button_hit :: raycaster where
  "button_hit = (\<lambda>_ _. [\<lparr>distance = 2, object = buttonMesh\<rparr>])"

text \<open>
  The end-to-end scenario of the specification: a viewer at (0, 1.6, 0) looking forward, a
  hand with its finger tips 0.01 apart.
\<close>

definition scenario_frame :: xr_frame where
  "scenario_frame =
    \<lparr>getViewerPose = viewer_at (Some level_pose),
     getJointPose = joints_at [0 \<mapsto> at_point 0 1 0, 1 \<mapsto> at_point 0 1 (binary64 0.01)],
     inputSources = [\<lparr>hand = Some example_hand, gamepad = None\<rparr>]\<rparr>"

text \<open>Text in the Basic Latin block: one code unit for each character.\<close>

definition utf16 :: "string \<Rightarrow> js_string" where
  "utf16 s = map of_char s"

text \<open>
  A classification service: it cannot be reached for one utterance, answers another with
  status 401 and a JSON error body that has no \<open>entities\<close> member, and classifies the
  rest.
\<close>

definition service :: "request \<Rightarrow> fetch_outcome" where
  "service r =
    (if query r = utf16 ''lights on'' then FetchFailed
     else if query r = utf16 ''volume up'' then Response 401 (JsonValue None)
     else Response 200 (JsonValue (Some [(''intent'', ''change_scene'')])))"

text \<open>The fields that the loop over the input sources leaves alone.\<close>

definition frame_fields_kept :: "'a openavr \<Rightarrow> 'a openavr \<Rightarrow> bool" where
  "frame_fields_kept st s =
    (camera s = camera st \<and> scene s = scene st \<and> materials s = materials st \<and>
     ray s = ray st \<and> xrReferenceSpace s = xrReferenceSpace st \<and>
     requestedFrames s = requestedFrames st \<and> rendererSize s = rendererSize st \<and>
     animationLoop s = animationLoop st)"

section \<open>Auxiliary facts\<close>

lemma bind_Done: "bind_outcome (Done s) f = f s"
  by (simp add: bind_outcome_def)

lemma bind_Throw: "bind_outcome (Throw e s) f = Throw e s"
  by (simp add: bind_outcome_def)

lemma is_Done_bind:
  "is_Done (bind_outcome r f) \<longleftrightarrow> is_Done r \<and> is_Done (f (state_of r))"
  by (cases r) (simp_all add: bind_outcome_def)

subsection \<open>Rounding to binary64\<close>

lemma round_half_even_nearest:
  assumes "of_int k - 1 / 2 < r" "r < of_int k + 1 / 2"
  shows "round_half_even r = k"
proof -
  have "\<lfloor>r\<rfloor> = k \<or> \<lfloor>r\<rfloor> = k - 1"
    using assms by linarith
  then show ?thesis
    using assms unfolding round_half_even_def Let_def by (auto; linarith)
qed

text \<open>
  A positive real that is nearer to \<open>k / 2 ^ n\<close> than to its two neighbours, for a
  significand \<open>k\<close> of 53 bits, is rounded to it.
\<close>

lemma binary64_nearest:
  fixes k :: int and n :: nat
  assumes k: "2 ^ 52 < k" "k < 2 ^ 53" and n: "n \<le> 1074"
    and lo: "(of_int k - 1 / 2) / 2 ^ n < x" and hi: "x < (of_int k + 1 / 2) / 2 ^ n"
  shows "binary64 x = of_int k / 2 ^ n"
proof -
  have "2 ^ 52 + 1 \<le> k" "k + 1 \<le> 2 ^ 53"
    using k by linarith+
  then have "real_of_int (2 ^ 52 + 1) \<le> real_of_int k"
    "real_of_int (k + 1) \<le> real_of_int (2 ^ 53)"
    by (simp_all only: of_int_le_iff)
  then have kr: "(2::real) ^ 52 + 1 \<le> of_int k" "of_int k + 1 \<le> (2::real) ^ 53"
    by simp_all
  have p: "(0::real) < 2 ^ n" by simp
  have "(2::real) ^ 52 / 2 ^ n \<le> (of_int k - 1 / 2) / 2 ^ n"
    by (rule divide_right_mono) (use kr in linarith, simp)
  with lo have lo': "(2::real) ^ 52 / 2 ^ n \<le> x" by linarith
  have "(of_int k + 1 / 2) / 2 ^ n \<le> (2::real) ^ 53 / 2 ^ n"
    by (rule divide_right_mono) (use kr in linarith, simp)
  with hi have hi': "x < (2::real) ^ 53 / 2 ^ n" by linarith
  have "(0::real) < 2 ^ 52 / 2 ^ n" by simp
  with lo' have xpos: "0 < x" by linarith
  have pn: "2 powr real n = (2::real) ^ n"
    by (simp add: powr_realpow)
  have pw: "2 powr real_of_int (52 - int n) = (2::real) ^ 52 / 2 ^ n"
  proof -
    have "2 powr real_of_int (52 - int n) = 2 powr (52 - real n)" by simp
    also have "\<dots> = 2 powr 52 / 2 powr real n" by (rule powr_diff)
    also have "\<dots> = (2::real) ^ 52 / 2 ^ n" by (simp only: pn) simp
    finally show ?thesis .
  qed
  have pw1: "2 powr real_of_int (52 - int n + 1) = (2::real) ^ 53 / 2 ^ n"
  proof -
    have "2 powr real_of_int (52 - int n + 1) = 2 powr (53 - real n)" by simp
    also have "\<dots> = 2 powr 53 / 2 powr real n" by (rule powr_diff)
    also have "\<dots> = (2::real) ^ 53 / 2 ^ n" by (simp only: pn) simp
    finally show ?thesis .
  qed
  have fl: "\<lfloor>log 2 \<bar>x\<bar>\<rfloor> = 52 - int n"
  proof -
    have two: "(1::real) < 2" by simp
    have "2 powr real_of_int (52 - int n) \<le> x \<and> x < 2 powr real_of_int (52 - int n + 1)"
      unfolding pw pw1 using lo' hi' by blast
    then have "\<lfloor>log 2 x\<rfloor> = 52 - int n"
      by (rule iffD2 [OF floor_log_eq_powr_iff [OF xpos two]])
    with xpos show ?thesis by simp
  qed
  have mx: "max (\<lfloor>log 2 \<bar>x\<bar>\<rfloor> - 52) (- 1074) = - int n"
    using n by (simp add: fl)
  have u: "2 powr of_int (max (\<lfloor>log 2 \<bar>x\<bar>\<rfloor> - 52) (- 1074)) = 1 / (2::real) ^ n"
  proof -
    have "2 powr real_of_int (- int n) = 2 powr (- real n)" by simp
    also have "\<dots> = 1 / 2 powr real n" by (rule powr_minus_divide)
    finally show ?thesis by (simp only: mx pn)
  qed
  have r: "round_half_even (x * 2 ^ n) = k"
  proof (rule round_half_even_nearest)
    show "of_int k - 1 / 2 < x * 2 ^ n"
      using lo p by (simp add: field_simps)
    show "x * 2 ^ n < of_int k + 1 / 2"
      using hi p by (simp add: field_simps)
  qed
  have "binary64 x = sgn x * (1 / 2 ^ n * of_int (round_half_even (\<bar>x\<bar> / (1 / 2 ^ n))))"
    using xpos unfolding binary64_def Let_def u by simp
  then show ?thesis
    using xpos by (simp add: r)
qed

lemma binary64_sqrt_nearest:
  fixes k :: int and n :: nat
  assumes k: "2 ^ 52 < k" "k < 2 ^ 53" and n: "n \<le> 1074"
    and lo: "((of_int k - 1 / 2) / 2 ^ n)\<^sup>2 < s" and hi: "s < ((of_int k + 1 / 2) / 2 ^ n)\<^sup>2"
  shows "binary64 (sqrt s) = of_int k / 2 ^ n"
proof (rule binary64_nearest [OF k n])
  show "(of_int k - 1 / 2) / 2 ^ n < sqrt s"
    using lo by (rule real_less_rsqrt)
  have "0 < k"
    using k(1) by (rule less_trans [rotated]) simp
  then have "(0::real) \<le> of_int k + 1 / 2"
    by simp
  then have "0 \<le> (of_int k + 1 / 2) / (2::real) ^ n"
    by simp
  then show "sqrt s < (of_int k + 1 / 2) / 2 ^ n"
    using hi by (rule real_less_lsqrt)
qed

lemma binary64_minus: "binary64 (- x) = - binary64 x"
  by (simp add: binary64_def Let_def sgn_minus)

lemma binary64_zero: "binary64 0 = 0"
  by (simp add: binary64_def)

text \<open>The Numbers of the examples, and the rounded results of the operations on them.\<close>

lemma literal_d01: "binary64 (0.01) = 5764607523034235 / 2 ^ 59"
  using binary64_nearest [of 5764607523034235 59 "0.01"] by simp

lemma number_d01: "binary64 (5764607523034235 / 2 ^ 59) = 5764607523034235 / 2 ^ 59"
  using binary64_nearest [of 5764607523034235 59 "5764607523034235 / 2 ^ 59"] by simp

lemma square_d01: "binary64 (5764607523034235 / 2 ^ 59 * (5764607523034235 / 2 ^ 59)) = 7378697629483821 / 2 ^ 66"
  using binary64_nearest [of 7378697629483821 66 "5764607523034235 / 2 ^ 59 * (5764607523034235 / 2 ^ 59)"] by simp

lemma number_sq_d01: "binary64 (7378697629483821 / 2 ^ 66) = 7378697629483821 / 2 ^ 66"
  using binary64_nearest [of 7378697629483821 66 "7378697629483821 / 2 ^ 66"] by simp

lemma sqrt_sq_d01: "binary64 (sqrt (7378697629483821 / 2 ^ 66)) = 5764607523034235 / 2 ^ 59"
  using binary64_sqrt_nearest [of 5764607523034235 59 "7378697629483821 / 2 ^ 66"] by (simp add: power2_eq_square)

lemma literal_d02: "binary64 (0.02) = 5764607523034235 / 2 ^ 58"
  using binary64_nearest [of 5764607523034235 58 "0.02"] by simp

lemma number_d02: "binary64 (5764607523034235 / 2 ^ 58) = 5764607523034235 / 2 ^ 58"
  using binary64_nearest [of 5764607523034235 58 "5764607523034235 / 2 ^ 58"] by simp

lemma square_d02: "binary64 (5764607523034235 / 2 ^ 58 * (5764607523034235 / 2 ^ 58)) = 7378697629483821 / 2 ^ 64"
  using binary64_nearest [of 7378697629483821 64 "5764607523034235 / 2 ^ 58 * (5764607523034235 / 2 ^ 58)"] by simp

lemma number_sq_d02: "binary64 (7378697629483821 / 2 ^ 64) = 7378697629483821 / 2 ^ 64"
  using binary64_nearest [of 7378697629483821 64 "7378697629483821 / 2 ^ 64"] by simp

lemma sqrt_sq_d02: "binary64 (sqrt (7378697629483821 / 2 ^ 64)) = 5764607523034235 / 2 ^ 58"
  using binary64_sqrt_nearest [of 5764607523034235 58 "7378697629483821 / 2 ^ 64"] by (simp add: power2_eq_square)

lemma literal_d03: "binary64 (0.03) = 8646911284551352 / 2 ^ 58"
  using binary64_nearest [of 8646911284551352 58 "0.03"] by simp

lemma number_d03: "binary64 (8646911284551352 / 2 ^ 58) = 8646911284551352 / 2 ^ 58"
  using binary64_nearest [of 8646911284551352 58 "8646911284551352 / 2 ^ 58"] by simp

lemma square_d03: "binary64 (8646911284551352 / 2 ^ 58 * (8646911284551352 / 2 ^ 58)) = 8301034833169298 / 2 ^ 63"
  using binary64_nearest [of 8301034833169298 63 "8646911284551352 / 2 ^ 58 * (8646911284551352 / 2 ^ 58)"] by simp

lemma number_sq_d03: "binary64 (8301034833169298 / 2 ^ 63) = 8301034833169298 / 2 ^ 63"
  using binary64_nearest [of 8301034833169298 63 "8301034833169298 / 2 ^ 63"] by simp

lemma sqrt_sq_d03: "binary64 (sqrt (8301034833169298 / 2 ^ 63)) = 8646911284551352 / 2 ^ 58"
  using binary64_sqrt_nearest [of 8646911284551352 58 "8301034833169298 / 2 ^ 63"] by (simp add: power2_eq_square)

lemma literal_bx: "binary64 (0.0131) = 7551635855174848 / 2 ^ 59"
  using binary64_nearest [of 7551635855174848 59 "0.0131"] by simp

lemma literal_by: "binary64 (0.015112577543225376) = 8711807819811524 / 2 ^ 59"
  using binary64_nearest [of 8711807819811524 59 "0.015112577543225376"] by simp

lemma number_bx: "binary64 (7551635855174848 / 2 ^ 59) = 7551635855174848 / 2 ^ 59"
  using binary64_nearest [of 7551635855174848 59 "7551635855174848 / 2 ^ 59"] by simp

lemma number_by: "binary64 (8711807819811524 / 2 ^ 59) = 8711807819811524 / 2 ^ 59"
  using binary64_nearest [of 8711807819811524 59 "8711807819811524 / 2 ^ 59"] by simp

lemma square_bx: "binary64 (7551635855174848 / 2 ^ 59 * (7551635855174848 / 2 ^ 59)) = 6331291500978593 / 2 ^ 65"
  using binary64_nearest [of 6331291500978593 65 "7551635855174848 / 2 ^ 59 * (7551635855174848 / 2 ^ 59)"] by simp

lemma square_by: "binary64 (8711807819811524 / 2 ^ 59 * (8711807819811524 / 2 ^ 59)) = 8426103757989047 / 2 ^ 65"
  using binary64_nearest [of 8426103757989047 65 "8711807819811524 / 2 ^ 59 * (8711807819811524 / 2 ^ 59)"] by simp

lemma sum_b: "binary64 (6331291500978593 / 2 ^ 65 + 8426103757989047 / 2 ^ 65) = 7378697629483820 / 2 ^ 64"
  using binary64_nearest [of 7378697629483820 64 "6331291500978593 / 2 ^ 65 + 8426103757989047 / 2 ^ 65"] by simp

lemma number_sum_b: "binary64 (7378697629483820 / 2 ^ 64) = 7378697629483820 / 2 ^ 64"
  using binary64_nearest [of 7378697629483820 64 "7378697629483820 / 2 ^ 64"] by simp

lemma sqrt_sum_b: "binary64 (sqrt (7378697629483820 / 2 ^ 64)) = 5764607523034235 / 2 ^ 58"
  using binary64_sqrt_nearest [of 5764607523034235 58 "7378697629483820 / 2 ^ 64"] by (simp add: power2_eq_square)


lemma computed_distance_along_z:
  "computed_distance double (position (at_point 0 1 0)) (position (at_point 0 1 d)) =
    binary64 (sqrt (binary64 (binary64 (binary64 d * binary64 d))))"
  by (simp add: computed_distance_def double_def at_point_def binary64_minus binary64_zero)

lemma computed_distance_in_plane:
  "computed_distance double (position (at_point a b 0)) (position (at_point 0 0 0)) =
    binary64 (sqrt (binary64 (binary64 (binary64 (binary64 a * binary64 a) +
      binary64 (binary64 b * binary64 b)))))"
  by (simp add: computed_distance_def double_def at_point_def binary64_minus binary64_zero
      Let_def)

lemma threshold_double: "rounded double 0.02 = 5764607523034235 / 2 ^ 58"
  unfolding double_def arithmetic.select_convs by (rule literal_d02)

lemma distance_d01:
  "computed_distance double (position (at_point 0 1 0)) (position (at_point 0 1 (binary64 0.01))) =
    5764607523034235 / 2 ^ 59"
  unfolding computed_distance_along_z literal_d01 number_d01 square_d01 number_sq_d01
    sqrt_sq_d01 ..

lemma distance_d02:
  "computed_distance double (position (at_point 0 1 0)) (position (at_point 0 1 (binary64 0.02))) =
    5764607523034235 / 2 ^ 58"
  unfolding computed_distance_along_z literal_d02 number_d02 square_d02 number_sq_d02
    sqrt_sq_d02 ..

lemma distance_d03:
  "computed_distance double (position (at_point 0 1 0)) (position (at_point 0 1 (binary64 0.03))) =
    8646911284551352 / 2 ^ 58"
  unfolding computed_distance_along_z literal_d03 number_d03 square_d03 number_sq_d03
    sqrt_sq_d03 ..

lemma distance_boundary:
  "computed_distance double
     (position (at_point (binary64 0.0131) (binary64 0.015112577543225376) 0))
     (position (at_point 0 0 0)) = 5764607523034235 / 2 ^ 58"
  unfolding computed_distance_in_plane literal_bx literal_by number_bx number_by square_bx
    square_by sum_b number_sum_b sqrt_sum_b ..

lemma below_d01:
  "computed_distance double (position (at_point 0 1 0)) (position (at_point 0 1 (binary64 0.01)))
     < rounded double 0.02"
  unfolding distance_d01 threshold_double by simp

lemma not_below_d02:
  "\<not> computed_distance double (position (at_point 0 1 0))
       (position (at_point 0 1 (binary64 0.02))) < rounded double 0.02"
  unfolding distance_d02 threshold_double by simp

lemma not_below_d03:
  "\<not> computed_distance double (position (at_point 0 1 0))
       (position (at_point 0 1 (binary64 0.03))) < rounded double 0.02"
  unfolding distance_d03 threshold_double by simp

lemma not_below_boundary:
  "\<not> computed_distance double
       (position (at_point (binary64 0.0131) (binary64 0.015112577543225376) 0))
       (position (at_point 0 0 0)) < rounded double 0.02"
  unfolding distance_boundary threshold_double by simp

lemma exact_boundary:
  "distance3D (position (at_point (binary64 0.0131) (binary64 0.015112577543225376) 0))
     (position (at_point 0 0 0)) < 0.02"
  unfolding distance3D_def literal_bx literal_by
  by (rule real_less_lsqrt) (simp_all add: at_point_def power2_eq_square)

lemma computed_distance_exact: "computed_distance exact a b = distance3D a b"
  by (simp add: computed_distance_def exact_def distance3D_def power2_eq_square Let_def)

subsection \<open>The detectors and the loop\<close>

lemma detectGestures_resolved:
  assumes "getJointPose frame (h ''index-finger-tip'') (xrReferenceSpace st) = Inr (Some ip)"
    and "getJointPose frame (h ''thumb-tip'') (xrReferenceSpace st) = Inr (Some tp)"
  shows "detectGestures ar h frame st =
    (if computed_distance ar (position ip) (position tp) < rounded ar 0.02
     then Done (clickActionBtn (emitGesture Pinch st)) else Done st)"
  using assms by (simp add: detectGestures_def computed_distance_def Let_def)

lemma detectGestures_answered:
  assumes "getJointPose frame (h ''index-finger-tip'') (xrReferenceSpace st) = Inr indexPose"
    and "getJointPose frame (h ''thumb-tip'') (xrReferenceSpace st) = Inr thumbPose"
  shows "detectGestures ar h frame st =
    Done (if pinching ar frame (xrReferenceSpace st) h
          then clickActionBtn (emitGesture Pinch st) else st)"
  using assms
  by (auto simp add: detectGestures_def pinching_def computed_distance_def Let_def
      split: option.splits)

lemma processInputSource_ok:
  assumes "source_ok frame (xrReferenceSpace st) src"
  shows "\<exists>s. processInputSource ar frame src st = Done s \<and> frame_fields_kept st s \<and>
    gestureLog s = gestureLog st @ source_gestures ar frame (xrReferenceSpace st) src"
proof (cases "hand src")
  case None
  then show ?thesis
    using assms
    by (cases "gamepad src")
      (auto simp add: processInputSource_def bind_Done source_ok_def source_error_def
        hand_error_def source_gestures_def hand_gestures_def gamepad_gestures_def
        frame_fields_kept_def detectControllerInput_def emitGesture_def
        split: list.splits if_splits)
next
  case (Some h)
  with assms obtain indexPose thumbPose where answered:
    "getJointPose frame (h ''index-finger-tip'') (xrReferenceSpace st) = Inr indexPose"
    "getJointPose frame (h ''thumb-tip'') (xrReferenceSpace st) = Inr thumbPose"
    by (auto simp add: source_ok_def source_error_def hand_error_def split: sum.splits)
  show ?thesis
    using assms Some
    by (cases "gamepad src")
      (auto simp add: processInputSource_def bind_Done source_ok_def source_error_def
        hand_error_def source_gestures_def hand_gestures_def gamepad_gestures_def
        frame_fields_kept_def detectControllerInput_def emitGesture_def clickActionBtn_def
        detectGestures_answered [OF answered] answered split: list.splits if_splits)
qed

lemma processInputSource_error:
  assumes "source_error frame (xrReferenceSpace st) src = Some e"
  shows "\<exists>s. processInputSource ar frame src st = Throw e s \<and> frame_fields_kept st s \<and>
    gestureLog s = gestureLog st @ hand_gestures ar frame (xrReferenceSpace st) src"
proof (cases "hand_error frame (xrReferenceSpace st) src")
  case (Some e')
  then obtain h where h: "hand src = Some h"
    by (auto simp add: hand_error_def split: option.splits)
  from Some assms have e: "e' = e"
    by (simp add: source_error_def)
  have "detectGestures ar h frame st = Throw e st"
    using Some h unfolding e
    by (auto simp add: hand_error_def detectGestures_def Let_def split: sum.splits)
  moreover have "\<not> pinching ar frame (xrReferenceSpace st) h"
    using Some h
    by (auto simp add: hand_error_def pinching_def split: sum.splits option.splits)
  ultimately show ?thesis
    using h
    by (simp add: processInputSource_def bind_Throw hand_gestures_def frame_fields_kept_def)
next
  case None
  with assms obtain g where g: "gamepad src = Some g" "buttons g = []" "e = TypeError"
    by (auto simp add: source_error_def split: option.splits if_splits)
  show ?thesis
  proof (cases "hand src")
    case None
    then show ?thesis
      using g
      by (simp add: processInputSource_def bind_Done detectControllerInput_def
          hand_gestures_def frame_fields_kept_def)
  next
    case (Some h)
    with \<open>hand_error frame (xrReferenceSpace st) src = None\<close>
    obtain indexPose thumbPose where answered:
      "getJointPose frame (h ''index-finger-tip'') (xrReferenceSpace st) = Inr indexPose"
      "getJointPose frame (h ''thumb-tip'') (xrReferenceSpace st) = Inr thumbPose"
      by (auto simp add: hand_error_def split: sum.splits)
    show ?thesis
      using g Some
      by (simp add: processInputSource_def bind_Done detectControllerInput_def
          hand_gestures_def frame_fields_kept_def detectGestures_answered [OF answered]
          emitGesture_def clickActionBtn_def)
  qed
qed

lemma processInputSources_ok:
  assumes "list_all (source_ok frame (xrReferenceSpace st)) srcs"
  shows "\<exists>s. processInputSources ar frame srcs st = Done s \<and> frame_fields_kept st s \<and>
    gestureLog s =
      gestureLog st @ concat (map (source_gestures ar frame (xrReferenceSpace st)) srcs)"
  using assms
proof (induction srcs arbitrary: st)
  case Nil
  then show ?case by (simp add: frame_fields_kept_def)
next
  case (Cons src rest)
  then have "source_ok frame (xrReferenceSpace st) src"
    and rest: "list_all (source_ok frame (xrReferenceSpace st)) rest"
    by simp_all
  then obtain s1 where s1: "processInputSource ar frame src st = Done s1"
    "frame_fields_kept st s1"
    "gestureLog s1 = gestureLog st @ source_gestures ar frame (xrReferenceSpace st) src"
    using processInputSource_ok by blast
  have space: "xrReferenceSpace s1 = xrReferenceSpace st"
    using s1(2) by (simp add: frame_fields_kept_def)
  from rest have "list_all (source_ok frame (xrReferenceSpace s1)) rest"
    by (simp only: space)
  from Cons.IH [OF this] obtain s2 where s2:
    "processInputSources ar frame rest s1 = Done s2" "frame_fields_kept s1 s2"
    "gestureLog s2 =
      gestureLog s1 @ concat (map (source_gestures ar frame (xrReferenceSpace s1)) rest)"
    by blast
  from s1 s2 space show ?case
    by (simp add: bind_Done frame_fields_kept_def)
qed

lemma processInputSources_error:
  assumes "list_all (source_ok frame (xrReferenceSpace st)) good"
    and "source_error frame (xrReferenceSpace st) src = Some e"
  shows "\<exists>s. processInputSources ar frame (good @ src # rest) st = Throw e s \<and>
    frame_fields_kept st s \<and>
    gestureLog s =
      gestureLog st @ concat (map (source_gestures ar frame (xrReferenceSpace st)) good) @
      hand_gestures ar frame (xrReferenceSpace st) src"
  using assms
proof (induction good arbitrary: st)
  case Nil
  then obtain s where "processInputSource ar frame src st = Throw e s"
    "frame_fields_kept st s"
    "gestureLog s = gestureLog st @ hand_gestures ar frame (xrReferenceSpace st) src"
    using processInputSource_error by blast
  then show ?case
    by (simp add: bind_Throw)
next
  case (Cons first good)
  then have "source_ok frame (xrReferenceSpace st) first"
    and good: "list_all (source_ok frame (xrReferenceSpace st)) good"
    by simp_all
  then obtain s1 where s1: "processInputSource ar frame first st = Done s1"
    "frame_fields_kept st s1"
    "gestureLog s1 = gestureLog st @ source_gestures ar frame (xrReferenceSpace st) first"
    using processInputSource_ok by blast
  have space: "xrReferenceSpace s1 = xrReferenceSpace st"
    using s1(2) by (simp add: frame_fields_kept_def)
  from good Cons.prems(2)
  have "list_all (source_ok frame (xrReferenceSpace s1)) good"
    "source_error frame (xrReferenceSpace s1) src = Some e"
    by (simp_all only: space)
  from Cons.IH [OF this] obtain s2 where s2:
    "processInputSources ar frame (good @ src # rest) s1 = Throw e s2"
    "frame_fields_kept s1 s2"
    "gestureLog s2 =
      gestureLog s1 @ concat (map (source_gestures ar frame (xrReferenceSpace s1)) good) @
      hand_gestures ar frame (xrReferenceSpace s1) src"
    by blast
  from s1 s2 space show ?case
    by (simp add: bind_Done frame_fields_kept_def)
qed

lemma processInputSources_Done_iff:
  "is_Done (processInputSources ar frame srcs st) \<longleftrightarrow>
    list_all (source_ok frame (xrReferenceSpace st)) srcs"
proof
  assume returned: "is_Done (processInputSources ar frame srcs st)"
  show "list_all (source_ok frame (xrReferenceSpace st)) srcs"
  proof (rule ccontr)
    assume "\<not> list_all (source_ok frame (xrReferenceSpace st)) srcs"
    then have "\<exists>src \<in> set srcs. \<not> source_ok frame (xrReferenceSpace st) src"
      by (simp add: list_all_iff)
    then obtain good src rest where split: "srcs = good @ src # rest"
      "\<not> source_ok frame (xrReferenceSpace st) src"
      "\<forall>s \<in> set good. \<not> \<not> source_ok frame (xrReferenceSpace st) s"
      by (rule split_list_first_propE) blast
    from split(2) obtain e where "source_error frame (xrReferenceSpace st) src = Some e"
      by (auto simp add: source_ok_def)
    moreover from split(3) have "list_all (source_ok frame (xrReferenceSpace st)) good"
      by (simp add: list_all_iff)
    ultimately obtain s where "processInputSources ar frame (good @ src # rest) st = Throw e s"
      using processInputSources_error by blast
    with returned split(1) show False
      by simp
  qed
next
  assume "list_all (source_ok frame (xrReferenceSpace st)) srcs"
  then obtain s where "processInputSources ar frame srcs st = Done s"
    using processInputSources_ok by blast
  then show "is_Done (processInputSources ar frame srcs st)"
    by simp
qed

text \<open>The pose branch of a frame, when it returns, leaves log, space and requests alone.\<close>

lemma pose_branch_returns:
  assumes "pose_readable frame (xrReferenceSpace st)"
  shows "\<exists>p st2. getViewerPose frame (xrReferenceSpace st) = Inr p \<and>
    (case p of
       None \<Rightarrow> Done (st\<lparr>rendererSize := windowSize st, animationLoop := True\<rparr>)
     | Some vp \<Rightarrow>
         bind_outcome
           (updateCameraFromPose vp (st\<lparr>rendererSize := windowSize st, animationLoop := True\<rparr>))
           (detectGaze rc vp)) = Done st2 \<and>
    xrReferenceSpace st2 = xrReferenceSpace st \<and> gestureLog st2 = gestureLog st \<and>
    requestedFrames st2 = requestedFrames st"
  using assms
  by (auto simp add: pose_readable_def updateCameraFromPose_def detectGaze_def bind_Done Let_def
      split: sum.splits option.splits list.splits)

lemmas example_state_defs = example_avr_def new_OpenAVR_def construct_def fields_def
  example_options_def host_def create3DGUI_def initVoiceInput_def truthy_def

lemma example_avr_space: "xrReferenceSpace example_avr = Some 0"
  by (simp add: example_state_defs)

lemma example_avr_gestureLog: "gestureLog example_avr = []"
  by (simp add: example_state_defs)

lemma example_avr_voiceLog: "voiceLog example_avr = []"
  by (simp add: example_state_defs)

lemma hand_frame_index:
  "getJointPose (hand_frame d) (example_hand ''index-finger-tip'') (Some sp) =
    Inr (Some (at_point 0 1 0))"
  by (simp add: joints_at_def hand_frame_def example_hand_def)

lemma hand_frame_thumb:
  "getJointPose (hand_frame d) (example_hand ''thumb-tip'') (Some sp) =
    Inr (Some (at_point 0 1 d))"
  by (simp add: joints_at_def hand_frame_def example_hand_def)

lemma boundary_frame_index:
  "getJointPose boundary_frame (example_hand ''index-finger-tip'') (Some sp) =
    Inr (Some (at_point (binary64 0.0131) (binary64 0.015112577543225376) 0))"
  unfolding boundary_frame_def by (simp add: joints_at_def example_hand_def)

lemma boundary_frame_thumb:
  "getJointPose boundary_frame (example_hand ''thumb-tip'') (Some sp) =
    Inr (Some (at_point 0 0 0))"
  unfolding boundary_frame_def by (simp add: joints_at_def example_hand_def)

lemma boundary_frame_no_pinch:
  "detectGestures double example_hand boundary_frame example_avr = Done example_avr"
  using detectGestures_resolved
      [where ar = double, OF boundary_frame_index [of 0, folded example_avr_space]
         boundary_frame_thumb [of 0, folded example_avr_space]]
    not_below_boundary
  by (simp only: if_False)

section \<open>The end-to-end scenario\<close>

lemma scenario_sets_camera_and_pinches:
  "\<exists>s. onXRFrame double (\<lambda>_ _. []) scenario_frame example_avr = Done s \<and>
     cam_position (camera s) = \<lparr>vx = 0, vy = 1.6, vz = 0\<rparr> \<and>
     gestureLog s = [Pinch] \<and> actionBtnClicks s = 1 \<and> requestedFrames s = 1"
proof -
  have index: "getJointPose scenario_frame (example_hand ''index-finger-tip'') (Some sp) =
      Inr (Some (at_point 0 1 0))" for sp
    by (simp add: joints_at_def scenario_frame_def example_hand_def)
  have thumb: "getJointPose scenario_frame (example_hand ''thumb-tip'') (Some sp) =
      Inr (Some (at_point 0 1 (binary64 0.01)))" for sp
    unfolding scenario_frame_def by (simp add: joints_at_def example_hand_def)
  have hand: "detectGestures double example_hand scenario_frame st =
      Done (clickActionBtn (emitGesture Pinch st))" if "xrReferenceSpace st = Some 0" for st :: "unit openavr"
    using detectGestures_resolved
        [where ar = double, OF index [of 0, folded that] thumb [of 0, folded that]] below_d01
    by (simp only: if_True)
  show ?thesis
    by (simp add: onXRFrame_def scenario_frame_def [THEN arg_cong, of getViewerPose]
        scenario_frame_def [THEN arg_cong, of inputSources] viewer_at_def level_pose_def
        at_point_def updateCameraFromPose_def detectGaze_def Let_def bind_Done
        processInputSource_def hand example_avr_space emitGesture_def clickActionBtn_def
        example_avr_gestureLog)
      (simp add: example_state_defs)
qed

section \<open>Gesture Detector: the pinch threshold\<close>

text \<open>
  C1, as the code has it. When both joint poses resolve, \<open>detectGestures\<close> returns and
  calls \<open>onGesture\<close> with \<open>pinch\<close> exactly once if the distance that the host computes
  from \<open>Math.sqrt(dx * dx + dy * dy + dz * dz)\<close>, every operation rounded, is strictly below
  the Number \<open>0.02\<close>, and not at all otherwise; this holds for every arithmetic and every
  prior state, so there is no debounce.
\<close>

theorem pinch_iff_computed_distance_below_threshold:
  assumes "getJointPose frame (h ''index-finger-tip'') (xrReferenceSpace st) = Inr (Some ip)"
    and "getJointPose frame (h ''thumb-tip'') (xrReferenceSpace st) = Inr (Some tp)"
  shows "\<exists>s. detectGestures ar h frame st = Done s \<and>
    gestureLog s = gestureLog st @
      (if computed_distance ar (position ip) (position tp) < rounded ar 0.02
       then [Pinch] else [])"
  using detectGestures_resolved [OF assms, of ar]
  by (simp add: emitGesture_def clickActionBtn_def)

text \<open>
  In binary64 arithmetic: the distances 0.01, 0.02 and 0.03 of the specification's test, and
  two frames in a row with the fingers held together.
\<close>

theorem pinch_iff_computed_distance_below_threshold_witness:
  "(\<exists>s. detectGestures double example_hand (hand_frame (binary64 0.01)) example_avr = Done s \<and>
        gestureLog s = [Pinch]) \<and>
   (\<exists>s. detectGestures double example_hand (hand_frame (binary64 0.02)) example_avr = Done s \<and>
        gestureLog s = []) \<and>
   (\<exists>s. detectGestures double example_hand (hand_frame (binary64 0.03)) example_avr = Done s \<and>
        gestureLog s = []) \<and>
   (\<exists>s s'. detectGestures double example_hand (hand_frame (binary64 0.01)) example_avr = Done s \<and>
        detectGestures double example_hand (hand_frame (binary64 0.01)) s = Done s' \<and>
        gestureLog s' = [Pinch, Pinch])"
proof -
  note index = hand_frame_index [of _ 0, folded example_avr_space]
  note thumb = hand_frame_thumb [of _ 0, folded example_avr_space]
  obtain s where first:
    "detectGestures double example_hand (hand_frame (binary64 0.01)) example_avr = Done s"
    "gestureLog s = [Pinch]"
    using pinch_iff_computed_distance_below_threshold
      [where ar = double, OF index [of "binary64 0.01"] thumb [of "binary64 0.01"]] below_d01
    by (auto simp only: if_True example_avr_gestureLog append_Nil)
  have kept: "xrReferenceSpace s = Some 0"
    using first(1)
      detectGestures_resolved
        [where ar = double, OF index [of "binary64 0.01"] thumb [of "binary64 0.01"]] below_d01
    by (auto simp add: emitGesture_def clickActionBtn_def example_avr_space)
  obtain s' where again:
    "detectGestures double example_hand (hand_frame (binary64 0.01)) s = Done s'"
    "gestureLog s' = [Pinch, Pinch]"
    using pinch_iff_computed_distance_below_threshold
      [where ar = double, OF hand_frame_index [of "binary64 0.01" 0, folded kept]
        hand_frame_thumb [of "binary64 0.01" 0, folded kept]] below_d01 first(2)
    by (auto simp only: if_True append.simps)
  have at_threshold:
    "\<exists>s. detectGestures double example_hand (hand_frame (binary64 0.02)) example_avr = Done s \<and>
      gestureLog s = []"
    using pinch_iff_computed_distance_below_threshold
      [where ar = double, OF index [of "binary64 0.02"] thumb [of "binary64 0.02"]] not_below_d02
    by (simp only: if_False example_avr_gestureLog append_Nil)
  have beyond:
    "\<exists>s. detectGestures double example_hand (hand_frame (binary64 0.03)) example_avr = Done s \<and>
      gestureLog s = []"
    using pinch_iff_computed_distance_below_threshold
      [where ar = double, OF index [of "binary64 0.03"] thumb [of "binary64 0.03"]] not_below_d03
    by (simp only: if_False example_avr_gestureLog append_Nil)
  from first again at_threshold beyond show ?thesis
    by blast
qed

text \<open>
  The claim does not hold of the Euclidean distance itself. With the index tip at
  (0.0131, 0.015112577543225376, 0) and the thumb tip at the origin the distance of the two
  positions is below 0.02, but the rounded sum of the squares has 0.02 as its rounded root:
  no pinch is emitted.
\<close>

theorem euclidean_distance_counterexample:
  "distance3D (position (at_point (binary64 0.0131) (binary64 0.015112577543225376) 0))
     (position (at_point 0 0 0)) < 0.02 \<and>
   getJointPose boundary_frame (example_hand ''index-finger-tip'') (xrReferenceSpace example_avr) =
     Inr (Some (at_point (binary64 0.0131) (binary64 0.015112577543225376) 0)) \<and>
   getJointPose boundary_frame (example_hand ''thumb-tip'') (xrReferenceSpace example_avr) =
     Inr (Some (at_point 0 0 0)) \<and>
   detectGestures double example_hand boundary_frame example_avr = Done example_avr \<and>
   gestureLog example_avr = []"
  using exact_boundary boundary_frame_index [of 0, folded example_avr_space]
    boundary_frame_thumb [of 0, folded example_avr_space] boundary_frame_no_pinch
    example_avr_gestureLog
  by (intro conjI)

text \<open>
  C8, as the code has it. When the pinch condition holds as the code evaluates it, both
  joint poses resolved and the computed distance strictly below the Number \<open>0.02\<close>,
  \<open>click()\<close> is called on the action button exactly once, after the one call of
  \<open>onGesture\<close> with \<open>pinch\<close>.
\<close>

theorem pinch_clicks_action_button_once:
  assumes "getJointPose frame (h ''index-finger-tip'') (xrReferenceSpace st) = Inr (Some ip)"
    and "getJointPose frame (h ''thumb-tip'') (xrReferenceSpace st) = Inr (Some tp)"
    and "computed_distance ar (position ip) (position tp) < rounded ar 0.02"
  shows "\<exists>s. detectGestures ar h frame st = Done s \<and>
    actionBtnClicks s = Suc (actionBtnClicks st) \<and>
    gestureLog s = gestureLog st @ [Pinch] \<and>
    app s = onGesture st Pinch (app st)"
  using detectGestures_resolved [OF assms(1,2), of ar] assms(3)
  by (simp add: emitGesture_def clickActionBtn_def)

theorem pinch_clicks_action_button_once_witness:
  "\<exists>s. detectGestures double example_hand (hand_frame (binary64 0.01)) example_avr = Done s \<and>
     actionBtnClicks s = 1 \<and> gestureLog s = [Pinch] \<and> app s = ()"
  using pinch_clicks_action_button_once
    [where ar = double, OF hand_frame_index [of "binary64 0.01" 0, folded example_avr_space]
        hand_frame_thumb [of "binary64 0.01" 0, folded example_avr_space] below_d01]
  by (simp add: example_state_defs)

text \<open>
  With the Euclidean distance below 0.02 as in the positions above, the computed distance
  is 0.02: the button is not clicked and nothing is emitted.
\<close>

theorem euclidean_pinch_condition_counterexample:
  "distance3D (position (at_point (binary64 0.0131) (binary64 0.015112577543225376) 0))
     (position (at_point 0 0 0)) < 0.02 \<and>
   actionBtnClicks (state_of (detectGestures double example_hand boundary_frame example_avr)) = 0 \<and>
   gestureLog (state_of (detectGestures double example_hand boundary_frame example_avr)) = []"
  using exact_boundary by (simp add: boundary_frame_no_pinch) (simp add: example_state_defs)

section \<open>Gesture Detector: tracking loss\<close>

text \<open>
  C7. When the two joint lookups answer and at least one of the poses is \<open>null\<close>,
  \<open>detectGestures\<close> returns with the state untouched: no call of \<open>onGesture\<close>, no click, no
  exception; the loop body for that hand returns as well.
\<close>

theorem tracking_loss_skips_hand:
  assumes "getJointPose frame (h ''index-finger-tip'') (xrReferenceSpace st) = Inr indexPose"
    and "getJointPose frame (h ''thumb-tip'') (xrReferenceSpace st) = Inr thumbPose"
    and "indexPose = None \<or> thumbPose = None"
  shows "detectGestures ar h frame st = Done st \<and>
    processInputSource ar frame \<lparr>hand = Some h, gamepad = None\<rparr> st = Done st"
  using assms
  by (auto simp add: detectGestures_def processInputSource_def bind_outcome_def
      split: option.splits)

theorem tracking_loss_skips_hand_witness:
  "detectGestures double example_hand lost_thumb_frame example_avr = Done example_avr \<and>
   processInputSource double lost_thumb_frame \<lparr>hand = Some example_hand, gamepad = None\<rparr>
     example_avr = Done example_avr"
proof -
  have index: "getJointPose lost_thumb_frame (example_hand ''index-finger-tip'')
      (xrReferenceSpace example_avr) = Inr (Some (at_point 0 1 0))"
    by (simp add: joints_at_def lost_thumb_frame_def example_hand_def example_avr_space)
  have thumb: "getJointPose lost_thumb_frame (example_hand ''thumb-tip'')
      (xrReferenceSpace example_avr) = Inr None"
    by (simp add: joints_at_def lost_thumb_frame_def example_hand_def example_avr_space)
  have lost: "Some (at_point 0 1 0) = None \<or> (None :: rigid_transform option) = None"
    by simp
  show ?thesis
    using tracking_loss_skips_hand [OF index thumb lost] .
qed

section \<open>Geometry: the gaze direction\<close>

text \<open>
  C9. The identity quaternion leaves the forward direction (0, 0, -1) as it is, and a unit
  quaternion keeps the magnitude of the vector it is applied to.
\<close>

theorem gaze_direction_is_rotation:
  "applyQuaternion forward \<lparr>qx = 0, qy = 0, qz = 0, qw = 1\<rparr> = forward \<and>
   (qx q * qx q + qy q * qy q + qz q * qz q + qw q * qw q = 1 \<longrightarrow>
      magnitude (applyQuaternion v q) = magnitude v)"
proof (intro conjI impI)
  show "applyQuaternion forward \<lparr>qx = 0, qy = 0, qz = 0, qw = 1\<rparr> = forward"
    by (simp add: applyQuaternion_def forward_def)
next
  assume unit: "qx q * qx q + qy q * qy q + qz q * qz q + qw q * qw q = 1"
  have "vx (applyQuaternion v q) * vx (applyQuaternion v q) +
        vy (applyQuaternion v q) * vy (applyQuaternion v q) +
        vz (applyQuaternion v q) * vz (applyQuaternion v q) =
        (qx q * qx q + qy q * qy q + qz q * qz q + qw q * qw q) *
        (qx q * qx q + qy q * qy q + qz q * qz q + qw q * qw q) *
        (vx v * vx v + vy v * vy v + vz v * vz v)"
    by (simp add: applyQuaternion_def Let_def algebra_simps)
  then show "magnitude (applyQuaternion v q) = magnitude v"
    by (simp add: magnitude_def unit)
qed

text \<open>Half a turn about the vertical axis sends forward to its negation.\<close>

theorem gaze_direction_is_rotation_witness:
  "applyQuaternion forward \<lparr>qx = 0, qy = 0, qz = 0, qw = 1\<rparr> = forward \<and>
   applyQuaternion forward \<lparr>qx = 0, qy = 1, qz = 0, qw = 0\<rparr> = \<lparr>vx = 0, vy = 0, vz = 1\<rparr> \<and>
   magnitude (applyQuaternion forward \<lparr>qx = 0, qy = 1, qz = 0, qw = 0\<rparr>) = 1"
  using gaze_direction_is_rotation [of "\<lparr>qx = 0, qy = 1, qz = 0, qw = 0\<rparr>" forward]
  by (simp add: applyQuaternion_def forward_def magnitude_def)

section \<open>Pose Mapper: a pose without views\<close>

text \<open>
  C2, as the code has it. For a pose whose views are empty the camera is not written, but
  there is no guard: \<open>updateCameraFromPose\<close> throws a TypeError, which leaves \<open>onXRFrame\<close>
  before the input sources are read and before the next frame is requested.
\<close>

theorem empty_views_raise_type_error:
  assumes "views p = []"
  shows "updateCameraFromPose p st = Throw TypeError st \<and>
    (getViewerPose frame (xrReferenceSpace st) = Inr (Some p) \<longrightarrow>
      onXRFrame ar rc frame st =
        Throw TypeError (st\<lparr>rendererSize := windowSize st, animationLoop := True\<rparr>))"
  using assms by (simp add: updateCameraFromPose_def onXRFrame_def bind_Throw)

theorem empty_views_raise_type_error_witness:
  "updateCameraFromPose \<lparr>views = []\<rparr> example_avr = Throw TypeError example_avr \<and>
   onXRFrame double (\<lambda>_ _. []) empty_pose_frame example_avr =
     Throw TypeError (example_avr\<lparr>rendererSize := (1280, 720), animationLoop := True\<rparr>) \<and>
   camera (example_avr\<lparr>rendererSize := (1280, 720), animationLoop := True\<rparr>) =
     camera example_avr"
  using empty_views_raise_type_error
    [where p = "\<lparr>views = []\<rparr>" and st = example_avr and frame = empty_pose_frame
      and ar = double and rc = "\<lambda>_ _. []"]
  by (simp add: empty_pose_frame_def viewer_at_def example_state_defs)

text \<open>The claim as the specification states it (a guarded no-op that does not fail) is false.\<close>

theorem empty_views_counterexample:
  "updateCameraFromPose \<lparr>views = []\<rparr> example_avr = Throw TypeError example_avr \<and>
   \<not> is_Done (onXRFrame double (\<lambda>_ _. []) empty_pose_frame example_avr)"
  by (simp add: updateCameraFromPose_def onXRFrame_def bind_Throw empty_pose_frame_def
      viewer_at_def example_avr_space)

section \<open>Input sources that cannot be read\<close>

text \<open>
  C3, as the code has it. An input source with malformed data is not skipped, and nothing
  is caught. The loop over the input sources returns exactly when every source can be
  read: every joint lookup of a hand returns and every gamepad has a first button. A
  gamepad whose button sequence is empty raises a TypeError; a hand's joints go to the
  host's \<open>getJointPose\<close> unchecked, and what that call throws is raised. In a frame whose
  pose branch returns, the exception of the first source that cannot be read leaves
  \<open>onXRFrame\<close>: the sources before it have been processed, of the failing source at most
  the hand, the sources after it are not processed, and the next frame is not requested.
\<close>

theorem unreadable_source_aborts_frame:
  "is_Done (processInputSources ar frame srcs st) =
     list_all (source_ok frame (xrReferenceSpace st)) srcs \<and>
   (hand_error frame (xrReferenceSpace st) src = None \<and> gamepad src = Some g \<and>
    buttons g = [] \<longrightarrow> source_error frame (xrReferenceSpace st) src = Some TypeError) \<and>
   (hand src = Some h \<and>
    (getJointPose frame (h ''index-finger-tip'') (xrReferenceSpace st) = Inl e \<or>
     getJointPose frame (h ''index-finger-tip'') (xrReferenceSpace st) = Inr indexPose \<and>
     getJointPose frame (h ''thumb-tip'') (xrReferenceSpace st) = Inl e) \<longrightarrow>
      source_error frame (xrReferenceSpace st) src = Some e) \<and>
   (pose_readable frame (xrReferenceSpace st) \<and> inputSources frame = good @ src # rest \<and>
    list_all (source_ok frame (xrReferenceSpace st)) good \<and>
    source_error frame (xrReferenceSpace st) src = Some e \<longrightarrow>
      (\<exists>s. onXRFrame ar rc frame st = Throw e s \<and>
           requestedFrames s = requestedFrames st \<and>
           gestureLog s = gestureLog st @
             concat (map (source_gestures ar frame (xrReferenceSpace st)) good) @
             hand_gestures ar frame (xrReferenceSpace st) src))"
proof (intro conjI impI)
  show "is_Done (processInputSources ar frame srcs st) =
      list_all (source_ok frame (xrReferenceSpace st)) srcs"
    by (rule processInputSources_Done_iff)
next
  assume "hand_error frame (xrReferenceSpace st) src = None \<and> gamepad src = Some g \<and>
      buttons g = []"
  then show "source_error frame (xrReferenceSpace st) src = Some TypeError"
    by (simp add: source_error_def)
next
  assume "hand src = Some h \<and>
    (getJointPose frame (h ''index-finger-tip'') (xrReferenceSpace st) = Inl e \<or>
     getJointPose frame (h ''index-finger-tip'') (xrReferenceSpace st) = Inr indexPose \<and>
     getJointPose frame (h ''thumb-tip'') (xrReferenceSpace st) = Inl e)"
  then show "source_error frame (xrReferenceSpace st) src = Some e"
    by (auto simp add: source_error_def hand_error_def)
next
  assume hyp: "pose_readable frame (xrReferenceSpace st) \<and>
    inputSources frame = good @ src # rest \<and>
    list_all (source_ok frame (xrReferenceSpace st)) good \<and>
    source_error frame (xrReferenceSpace st) src = Some e"
  let ?st1 = "st\<lparr>rendererSize := windowSize st, animationLoop := True\<rparr>"
  from hyp pose_branch_returns [of frame st rc] obtain p st2 where pose:
    "getViewerPose frame (xrReferenceSpace st) = Inr p"
    "(case p of None \<Rightarrow> Done ?st1
      | Some vp \<Rightarrow> bind_outcome (updateCameraFromPose vp ?st1) (detectGaze rc vp)) = Done st2"
    "xrReferenceSpace st2 = xrReferenceSpace st" "gestureLog st2 = gestureLog st"
    "requestedFrames st2 = requestedFrames st"
    by blast
  from hyp have "list_all (source_ok frame (xrReferenceSpace st2)) good"
    "source_error frame (xrReferenceSpace st2) src = Some e"
    by (simp_all only: pose(3))
  from processInputSources_error [OF this, of ar rest] obtain s where s:
    "processInputSources ar frame (good @ src # rest) st2 = Throw e s"
    "frame_fields_kept st2 s"
    "gestureLog s = gestureLog st2 @
      concat (map (source_gestures ar frame (xrReferenceSpace st2)) good) @
      hand_gestures ar frame (xrReferenceSpace st2) src"
    by blast
  have "onXRFrame ar rc frame st = Throw e s"
    using hyp pose(1,2) s(1) by (simp add: onXRFrame_def bind_Done bind_Throw)
  with s(2,3) pose(3,4,5)
  show "\<exists>s. onXRFrame ar rc frame st = Throw e s \<and>
      requestedFrames s = requestedFrames st \<and>
      gestureLog s = gestureLog st @
        concat (map (source_gestures ar frame (xrReferenceSpace st)) good) @
        hand_gestures ar frame (xrReferenceSpace st) src"
    by (simp add: frame_fields_kept_def)
qed

text \<open>
  A viewer pose with a view, a pinching hand, then a gamepad without buttons, then a
  pressed controller: the pinch is emitted, the TypeError leaves the frame, the controller
  is not read and no frame is requested.
\<close>

theorem unreadable_source_aborts_frame_witness:
  "(\<exists>s. onXRFrame double two_hits hand_then_gamepad_frame example_avr = Throw TypeError s \<and>
        requestedFrames s = 0 \<and> gestureLog s = [Pinch]) \<and>
   \<not> is_Done (processInputSources double hand_then_gamepad_frame
     (inputSources hand_then_gamepad_frame) example_avr)"
proof -
  let ?hand = "\<lparr>hand = Some example_hand, gamepad = None\<rparr>"
  let ?bare = "\<lparr>hand = None, gamepad = Some \<lparr>buttons = []\<rparr>\<rparr>"
  let ?pressed = "\<lparr>hand = None, gamepad = Some \<lparr>buttons = [\<lparr>pressed = True\<rparr>]\<rparr>\<rparr>"
  have index: "getJointPose hand_then_gamepad_frame (example_hand ''index-finger-tip'')
      (xrReferenceSpace example_avr) = Inr (Some (at_point 0 1 0))"
    by (simp add: joints_at_def hand_then_gamepad_frame_def example_hand_def example_avr_space)
  have thumb: "getJointPose hand_then_gamepad_frame (example_hand ''thumb-tip'')
      (xrReferenceSpace example_avr) = Inr (Some (at_point 0 1 (binary64 0.01)))"
    unfolding hand_then_gamepad_frame_def
    by (simp add: joints_at_def example_hand_def example_avr_space)
  have pose: "pose_readable hand_then_gamepad_frame (xrReferenceSpace example_avr)"
    by (simp add: pose_readable_def hand_then_gamepad_frame_def viewer_at_def level_pose_def
        example_avr_space)
  have sources: "inputSources hand_then_gamepad_frame = [?hand] @ ?bare # [?pressed]"
    by (simp add: hand_then_gamepad_frame_def)
  have good: "list_all (source_ok hand_then_gamepad_frame (xrReferenceSpace example_avr)) [?hand]"
    by (simp add: source_ok_def source_error_def hand_error_def index thumb)
  have bad: "source_error hand_then_gamepad_frame (xrReferenceSpace example_avr) ?bare =
      Some TypeError"
    by (simp add: source_error_def hand_error_def)
  have pinch: "pinching double hand_then_gamepad_frame (xrReferenceSpace example_avr) example_hand"
    using below_d01 by (simp add: pinching_def index thumb)
  have events: "concat (map (source_gestures double hand_then_gamepad_frame
      (xrReferenceSpace example_avr)) [?hand]) @
      hand_gestures double hand_then_gamepad_frame (xrReferenceSpace example_avr) ?bare = [Pinch]"
    by (simp add: source_gestures_def hand_gestures_def gamepad_gestures_def pinch)
  note claim = unreadable_source_aborts_frame
    [where ar = double and frame = hand_then_gamepad_frame and st = example_avr
      and srcs = "inputSources hand_then_gamepad_frame" and good = "[?hand]" and src = ?bare
      and rest = "[?pressed]" and e = TypeError and rc = two_hits]
  have frame: "\<exists>s. onXRFrame double two_hits hand_then_gamepad_frame example_avr =
      Throw TypeError s \<and> requestedFrames s = requestedFrames example_avr \<and>
      gestureLog s = gestureLog example_avr @ [Pinch]"
    using claim pose sources good bad unfolding events by blast
  have loop: "\<not> is_Done (processInputSources double hand_then_gamepad_frame
      (inputSources hand_then_gamepad_frame) example_avr)"
    using claim bad unfolding sources by (simp add: source_ok_def)
  from frame loop show ?thesis
    by (simp add: example_avr_gestureLog) (simp add: example_state_defs)
qed

text \<open>
  A gamepad with an empty button sequence is not skipped: the exception leaves the frame
  callback, and the next frame is not requested.
\<close>

theorem empty_buttons_counterexample:
  "onXRFrame double (\<lambda>_ _. []) bare_gamepad_frame example_avr =
     Throw TypeError (example_avr\<lparr>rendererSize := (1280, 720), animationLoop := True\<rparr>)"
  by (simp add: onXRFrame_def bare_gamepad_frame_def viewer_at_def bind_outcome_def
      processInputSource_def detectControllerInput_def example_avr_space)
    (simp add: example_state_defs)

section \<open>Frame Loop Controller: a frame without a viewer pose\<close>

text \<open>
  C5, as the code has it. When the viewer pose is absent and every input source can be
  read, \<open>onXRFrame\<close> returns: camera, ray and materials are as before (neither the Pose
  Mapper nor the Gaze Resolver ran), every input source has gone through the detectors in
  order, and the next frame is requested once.
\<close>

theorem missing_pose_still_reads_inputs:
  assumes "getViewerPose frame (xrReferenceSpace st) = Inr None"
    and "list_all (source_ok frame (xrReferenceSpace st)) (inputSources frame)"
  shows "\<exists>s. onXRFrame ar rc frame st = Done s \<and>
    camera s = camera st \<and> ray s = ray st \<and> materials s = materials st \<and>
    gestureLog s = gestureLog st @
      concat (map (source_gestures ar frame (xrReferenceSpace st)) (inputSources frame)) \<and>
    requestedFrames s = Suc (requestedFrames st)"
proof -
  let ?st1 = "st\<lparr>rendererSize := windowSize st, animationLoop := True\<rparr>"
  have "list_all (source_ok frame (xrReferenceSpace ?st1)) (inputSources frame)"
    using assms(2) by simp
  from processInputSources_ok [OF this, of ar]
  obtain s where s: "processInputSources ar frame (inputSources frame) ?st1 = Done s"
    "frame_fields_kept ?st1 s"
    "gestureLog s = gestureLog ?st1 @
      concat (map (source_gestures ar frame (xrReferenceSpace ?st1)) (inputSources frame))"
    by blast
  have "onXRFrame ar rc frame st = Done (s\<lparr>requestedFrames := Suc (requestedFrames s)\<rparr>)"
    using assms(1) s(1) by (simp add: onXRFrame_def bind_Done)
  with s(2,3) show ?thesis
    by (simp add: frame_fields_kept_def)
qed

theorem missing_pose_still_reads_inputs_witness:
  "\<exists>s. onXRFrame double two_hits controller_and_hand_frame example_avr = Done s \<and>
     camera s = camera example_avr \<and> ray s = ray example_avr \<and>
     materials s = materials example_avr \<and>
     gestureLog s = [Select, Pinch] \<and> requestedFrames s = 1"
proof -
  have index: "getJointPose controller_and_hand_frame (example_hand ''index-finger-tip'')
      (xrReferenceSpace example_avr) = Inr (Some (at_point 0 1 0))"
    by (simp add: joints_at_def controller_and_hand_frame_def example_hand_def
        example_avr_space)
  have thumb: "getJointPose controller_and_hand_frame (example_hand ''thumb-tip'')
      (xrReferenceSpace example_avr) = Inr (Some (at_point 0 1 (binary64 0.01)))"
    unfolding controller_and_hand_frame_def
    by (simp add: joints_at_def example_hand_def example_avr_space)
  have pose: "getViewerPose controller_and_hand_frame (xrReferenceSpace example_avr) = Inr None"
    by (simp add: controller_and_hand_frame_def viewer_at_def example_avr_space)
  have sources: "inputSources controller_and_hand_frame =
      [\<lparr>hand = None, gamepad = Some \<lparr>buttons = [\<lparr>pressed = True\<rparr>]\<rparr>\<rparr>,
       \<lparr>hand = Some example_hand, gamepad = None\<rparr>]"
    by (simp add: controller_and_hand_frame_def)
  have ok: "list_all (source_ok controller_and_hand_frame (xrReferenceSpace example_avr))
      (inputSources controller_and_hand_frame)"
    unfolding sources by (simp add: source_ok_def source_error_def hand_error_def index thumb)
  have pinch: "pinching double controller_and_hand_frame (xrReferenceSpace example_avr)
      example_hand"
    using below_d01 by (simp add: pinching_def index thumb)
  have events: "concat (map (source_gestures double controller_and_hand_frame
      (xrReferenceSpace example_avr)) (inputSources controller_and_hand_frame)) = [Select, Pinch]"
    unfolding sources
    by (simp add: source_gestures_def hand_gestures_def gamepad_gestures_def pinch)
  show ?thesis
    using missing_pose_still_reads_inputs [OF pose ok, of double two_hits]
    unfolding events by (simp add: example_avr_gestureLog) (simp add: example_state_defs)
qed

text \<open>
  Without a viewer pose, a gamepad without buttons ends the iteration: the hand that
  follows it pinches but is not read, and the next frame is not requested.
\<close>

theorem missing_pose_counterexample:
  "onXRFrame double two_hits gamepad_then_hand_frame example_avr =
     Throw TypeError (example_avr\<lparr>rendererSize := (1280, 720), animationLoop := True\<rparr>) \<and>
   pinching double gamepad_then_hand_frame (Some 0) example_hand \<and>
   gestureLog (example_avr\<lparr>rendererSize := (1280, 720), animationLoop := True\<rparr>) = [] \<and>
   requestedFrames (example_avr\<lparr>rendererSize := (1280, 720), animationLoop := True\<rparr>) = 0"
proof -
  have index: "getJointPose gamepad_then_hand_frame (example_hand ''index-finger-tip'')
      (Some 0) = Inr (Some (at_point 0 1 0))"
    by (simp add: joints_at_def gamepad_then_hand_frame_def example_hand_def)
  have thumb: "getJointPose gamepad_then_hand_frame (example_hand ''thumb-tip'')
      (Some 0) = Inr (Some (at_point 0 1 (binary64 0.01)))"
    unfolding gamepad_then_hand_frame_def by (simp add: joints_at_def example_hand_def)
  have pinch: "pinching double gamepad_then_hand_frame (Some 0) example_hand"
    using below_d01 by (simp add: pinching_def index thumb)
  have frame: "onXRFrame double two_hits gamepad_then_hand_frame example_avr =
      Throw TypeError (example_avr\<lparr>rendererSize := windowSize example_avr, animationLoop := True\<rparr>)"
    by (simp add: onXRFrame_def gamepad_then_hand_frame_def [THEN arg_cong, of getViewerPose]
        gamepad_then_hand_frame_def [THEN arg_cong, of inputSources] viewer_at_def
        bind_outcome_def processInputSource_def detectControllerInput_def example_avr_space)
  from pinch frame show ?thesis
    by (simp add: example_state_defs)
qed

section \<open>Gaze Resolver: the highlight\<close>

text \<open>
  C4, as the code has it. For a pose with a first view, let the ray caster answer the ray
  from the camera position along the gaze direction. Without a hit no material is written.
  With hits exactly one material is written, the material of the object of the first hit,
  which is the nearest one when the ray caster orders its hits by increasing distance as
  the three library does. Every scene object with that material is drawn in the highlight
  colour afterwards, whether the ray hit it or not; an object with another material keeps
  its colour.
\<close>

theorem gaze_writes_material_of_first_hit:
  assumes "views p = view # others"
    and "rc (cam_position (camera st), applyQuaternion forward (orientation view)) (scene st) =
      hits"
  shows "\<exists>s. detectGaze rc p st = Done s \<and> scene s = scene st \<and>
    (case hits of
       [] \<Rightarrow> materials s = materials st
     | first # later \<Rightarrow>
         materials s = (materials st)(material (object first) \<mapsto> 0xff0000) \<and>
         (\<forall>obj. shown_colour s obj =
            (if material obj = material (object first) then Some 0xff0000
             else shown_colour st obj)) \<and>
         (sorted (map distance hits) \<longrightarrow> (\<forall>h \<in> set hits. distance first \<le> distance h)))"
  using assms
  by (auto simp add: detectGaze_def Let_def shown_colour_def split: list.splits)

theorem gaze_writes_material_of_first_hit_witness:
  "(\<exists>s. detectGaze two_hits level_pose two_mesh_avr = Done s \<and>
      shown_colour s buttonMesh = Some 0xff0000 \<and> shown_colour s second_mesh = Some 0x0000ff) \<and>
   (\<exists>s. detectGaze (\<lambda>_ _. []) level_pose two_mesh_avr = Done s \<and>
      shown_colour s buttonMesh = Some 0x00ff00 \<and> shown_colour s second_mesh = Some 0x0000ff)"
proof -
  have view: "views level_pose = at_point 0 1.6 0 # []"
    by (simp add: level_pose_def)
  have hits: "two_hits (cam_position (camera two_mesh_avr),
      applyQuaternion forward (orientation (at_point 0 1.6 0))) (scene two_mesh_avr) =
      [\<lparr>distance = 2, object = buttonMesh\<rparr>, \<lparr>distance = 5, object = second_mesh\<rparr>]"
    by (simp add: two_hits_def)
  have none: "(\<lambda>_ _. []) (cam_position (camera two_mesh_avr),
      applyQuaternion forward (orientation (at_point 0 1.6 0))) (scene two_mesh_avr) =
      ([] :: hit list)"
    by simp
  have before: "shown_colour two_mesh_avr buttonMesh = Some 0x00ff00"
    "shown_colour two_mesh_avr second_mesh = Some 0x0000ff"
    by (simp_all add: shown_colour_def two_mesh_avr_def buttonMesh_def second_mesh_def
        example_state_defs)
  have materials: "material buttonMesh = 0" "material second_mesh = 1"
    by (simp_all add: buttonMesh_def second_mesh_def)
  have hit: "\<exists>s. detectGaze two_hits level_pose two_mesh_avr = Done s \<and>
      shown_colour s buttonMesh = Some 0xff0000 \<and> shown_colour s second_mesh = Some 0x0000ff"
    using gaze_writes_material_of_first_hit [where rc = two_hits, OF view hits] before
    by (auto simp add: materials)
  have miss: "\<exists>s. detectGaze (\<lambda>_ _. []) level_pose two_mesh_avr = Done s \<and>
      shown_colour s buttonMesh = Some 0x00ff00 \<and> shown_colour s second_mesh = Some 0x0000ff"
    using gaze_writes_material_of_first_hit
      [where rc = "\<lambda>_ _. []" and st = two_mesh_avr, OF view none] before
    by (auto simp add: shown_colour_def)
  from hit miss show ?thesis ..
qed

text \<open>
  Two scene objects change when they share a material: the ray caster reports the button
  only, and the mesh built with the button's material, which is not among the hits, is
  drawn in the highlight colour as well.
\<close>

theorem shared_material_counterexample:
  "twin_mesh \<in> set (scene shared_material_avr) \<and>
   twin_mesh \<notin> object ` set (button_hit (ray shared_material_avr) (scene shared_material_avr)) \<and>
   shown_colour shared_material_avr buttonMesh = Some 0x00ff00 \<and>
   shown_colour shared_material_avr twin_mesh = Some 0x00ff00 \<and>
   is_Done (detectGaze button_hit level_pose shared_material_avr) \<and>
   shown_colour (state_of (detectGaze button_hit level_pose shared_material_avr)) buttonMesh =
     Some 0xff0000 \<and>
   shown_colour (state_of (detectGaze button_hit level_pose shared_material_avr)) twin_mesh =
     Some 0xff0000"
  by (simp add: detectGaze_def level_pose_def button_hit_def shown_colour_def
      shared_material_avr_def twin_mesh_def buttonMesh_def Let_def example_state_defs)

section \<open>Voice Intent Relay: a classification that fails\<close>

text \<open>
  C6, as the code has it. For an utterance whose last result has a transcript that can be
  encoded, the relay does not crash and is not left stuck, but it never turns a failed
  classification into an error event. When the request is rejected, or the body of the
  response is not JSON or is \<open>null\<close>, the promise of the handler is rejected with that
  failure and the state is as before: no call of \<open>onVoiceCommand\<close>, and nothing is caught
  or reported. When the service answers with a JSON value, whatever the HTTP status, the
  status is not read: the \<open>entities\<close> member of the body, \<open>undefined\<close> when the body has
  none, is forwarded to \<open>onVoiceCommand\<close>. The recognition object and the token are
  untouched in every case, so a later utterance is processed as the first one would be.
\<close>

theorem failed_classification_is_not_reported:
  assumes "results event = earlier @ [alternative # alternatives]"
    and "encodeURIComponent (trim alternative) = Inr q"
  shows "(fetch \<lparr>query = q, bearer = witToken st\<rparr> = FetchFailed \<longrightarrow>
      onresult fetch event st = Throw FetchRejection st) \<and>
    (fetch \<lparr>query = q, bearer = witToken st\<rparr> = Response status NotJson \<longrightarrow>
      onresult fetch event st = Throw SyntaxError st) \<and>
    (fetch \<lparr>query = q, bearer = witToken st\<rparr> = Response status JsonNull \<longrightarrow>
      onresult fetch event st = Throw TypeError st) \<and>
    (fetch \<lparr>query = q, bearer = witToken st\<rparr> = Response status (JsonValue entities) \<longrightarrow>
      onresult fetch event st =
        Done (st\<lparr>voiceLog := voiceLog st @ [entities],
                 app := onVoiceCommand st entities (app st)\<rparr>)) \<and>
    voice (state_of (onresult fetch event st)) = voice st \<and>
    witToken (state_of (onresult fetch event st)) = witToken st \<and>
    (\<not> is_Done (onresult fetch event st) \<and>
     results event' = earlier' @ [alternative' # alternatives'] \<and>
     encodeURIComponent (trim alternative') = Inr q' \<and>
     fetch' \<lparr>query = q', bearer = witToken st\<rparr> = Response status' (JsonValue entities') \<longrightarrow>
       onresult fetch' event' (state_of (onresult fetch event st)) =
         Done (st\<lparr>voiceLog := voiceLog st @ [entities'],
                  app := onVoiceCommand st entities' (app st)\<rparr>))"
proof -
  have last: "last (results event) = alternative # alternatives" "results event \<noteq> []"
    using assms(1) by simp_all
  have handler: "onresult fetch event st =
    (case fetch \<lparr>query = q, bearer = witToken st\<rparr> of
       FetchFailed \<Rightarrow> Throw FetchRejection st
     | Response status NotJson \<Rightarrow> Throw SyntaxError st
     | Response status JsonNull \<Rightarrow> Throw TypeError st
     | Response status (JsonValue entities) \<Rightarrow>
         Done (st\<lparr>voiceLog := voiceLog st @ [entities],
                  app := onVoiceCommand st entities (app st)\<rparr>))"
    using last assms(2) by (cases "results event") (simp_all add: onresult_def)
  have rejected: "state_of (onresult fetch event st) = st"
    if "\<not> is_Done (onresult fetch event st)"
  proof (cases "fetch \<lparr>query = q, bearer = witToken st\<rparr>")
    case FetchFailed
    then show ?thesis by (simp add: handler)
  next
    case (Response status body)
    with that show ?thesis by (cases body) (simp_all add: handler)
  qed
  have kept: "voice (state_of (onresult fetch event st)) = voice st \<and>
      witToken (state_of (onresult fetch event st)) = witToken st"
  proof (cases "fetch \<lparr>query = q, bearer = witToken st\<rparr>")
    case FetchFailed
    then show ?thesis by (simp add: handler)
  next
    case (Response status body)
    then show ?thesis by (cases body) (simp_all add: handler)
  qed
  have later: "onresult fetch' event' st =
      Done (st\<lparr>voiceLog := voiceLog st @ [entities'],
               app := onVoiceCommand st entities' (app st)\<rparr>)"
    if "results event' = earlier' @ [alternative' # alternatives']"
      "encodeURIComponent (trim alternative') = Inr q'"
      "fetch' \<lparr>query = q', bearer = witToken st\<rparr> = Response status' (JsonValue entities')"
  proof -
    have "last (results event') = alternative' # alternatives'" "results event' \<noteq> []"
      using that(1) by simp_all
    then show ?thesis
      using that(2,3) by (cases "results event'") (simp_all add: onresult_def)
  qed
  show ?thesis
  proof (intro conjI impI)
    assume "fetch \<lparr>query = q, bearer = witToken st\<rparr> = FetchFailed"
    then show "onresult fetch event st = Throw FetchRejection st"
      by (simp add: handler)
  next
    assume "fetch \<lparr>query = q, bearer = witToken st\<rparr> = Response status NotJson"
    then show "onresult fetch event st = Throw SyntaxError st"
      by (simp add: handler)
  next
    assume "fetch \<lparr>query = q, bearer = witToken st\<rparr> = Response status JsonNull"
    then show "onresult fetch event st = Throw TypeError st"
      by (simp add: handler)
  next
    assume "fetch \<lparr>query = q, bearer = witToken st\<rparr> = Response status (JsonValue entities)"
    then show "onresult fetch event st =
        Done (st\<lparr>voiceLog := voiceLog st @ [entities],
                 app := onVoiceCommand st entities (app st)\<rparr>)"
      by (simp add: handler)
  next
    show "voice (state_of (onresult fetch event st)) = voice st"
      using kept by (rule conjunct1)
  next
    show "witToken (state_of (onresult fetch event st)) = witToken st"
      using kept by (rule conjunct2)
  next
    assume hyp: "\<not> is_Done (onresult fetch event st) \<and>
      results event' = earlier' @ [alternative' # alternatives'] \<and>
      encodeURIComponent (trim alternative') = Inr q' \<and>
      fetch' \<lparr>query = q', bearer = witToken st\<rparr> = Response status' (JsonValue entities')"
    then have same: "state_of (onresult fetch event st) = st"
      using rejected by blast
    from hyp have "onresult fetch' event' st =
        Done (st\<lparr>voiceLog := voiceLog st @ [entities'],
                 app := onVoiceCommand st entities' (app st)\<rparr>)"
      by (intro later) blast+
    then show "onresult fetch' event' (state_of (onresult fetch event st)) =
        Done (st\<lparr>voiceLog := voiceLog st @ [entities'],
                 app := onVoiceCommand st entities' (app st)\<rparr>)"
      by (simp only: same)
  qed
qed

lemma utterance_lights_on:
  "results \<lparr>results = [[utf16 ''  lights on '']]\<rparr> = [] @ [utf16 ''  lights on '' # []]"
  by simp

lemma utterance_volume_up:
  "results \<lparr>results = [[utf16 ''volume up'']]\<rparr> = [] @ [utf16 ''volume up'' # []]"
  by simp

lemma utterance_change_scene:
  "results \<lparr>results = [[utf16 ''  lights on ''], [utf16 ''change scene'']]\<rparr> =
     [[utf16 ''  lights on '']] @ [utf16 ''change scene'' # []]"
  by simp

lemma query_lights_on: "encodeURIComponent (trim (utf16 ''  lights on '')) = Inr (utf16 ''lights on'')"
  by (simp add: encodeURIComponent_def trim_def whitespace_def utf16_def)

lemma query_volume_up: "encodeURIComponent (trim (utf16 ''volume up'')) = Inr (utf16 ''volume up'')"
  by (simp add: encodeURIComponent_def trim_def whitespace_def utf16_def)

lemma query_change_scene:
  "encodeURIComponent (trim (utf16 ''change scene'')) = Inr (utf16 ''change scene'')"
  by (simp add: encodeURIComponent_def trim_def whitespace_def utf16_def)

lemma service_answers:
  "service \<lparr>query = utf16 ''lights on'', bearer = b\<rparr> = FetchFailed"
  "service \<lparr>query = utf16 ''volume up'', bearer = b\<rparr> = Response 401 (JsonValue None)"
  "service \<lparr>query = utf16 ''change scene'', bearer = b\<rparr> =
     Response 200 (JsonValue (Some [(''intent'', ''change_scene'')]))"
  by (simp_all add: service_def utf16_def)

theorem failed_classification_is_not_reported_witness:
  "onresult service \<lparr>results = [[utf16 ''  lights on '']]\<rparr> example_avr =
     Throw FetchRejection example_avr \<and>
   voice (state_of (onresult service \<lparr>results = [[utf16 ''  lights on '']]\<rparr> example_avr)) =
     Some \<lparr>continuous = True, lang = ''en-US'', started = True\<rparr> \<and>
   is_Done (onresult service \<lparr>results = [[utf16 ''  lights on ''], [utf16 ''change scene'']]\<rparr>
     (state_of (onresult service \<lparr>results = [[utf16 ''  lights on '']]\<rparr> example_avr))) \<and>
   voiceLog (state_of
     (onresult service \<lparr>results = [[utf16 ''  lights on ''], [utf16 ''change scene'']]\<rparr>
       (state_of (onresult service \<lparr>results = [[utf16 ''  lights on '']]\<rparr> example_avr)))) =
     [Some [(''intent'', ''change_scene'')]]"
proof -
  note claim = failed_classification_is_not_reported
    [where fetch = service and st = example_avr and fetch' = service
      and event' = "\<lparr>results = [[utf16 ''  lights on ''], [utf16 ''change scene'']]\<rparr>"
      and earlier' = "[[utf16 ''  lights on '']]" and alternative' = "utf16 ''change scene''"
      and alternatives' = "[]" and q' = "utf16 ''change scene''" and status' = 200
      and entities' = "Some [(''intent'', ''change_scene'')]",
      OF utterance_lights_on query_lights_on]
  have first: "onresult service \<lparr>results = [[utf16 ''  lights on '']]\<rparr> example_avr =
      Throw FetchRejection example_avr"
    by (rule claim [THEN conjunct1, THEN mp]) (rule service_answers)
  have "\<not> is_Done (onresult service \<lparr>results = [[utf16 ''  lights on '']]\<rparr> example_avr) \<and>
      results \<lparr>results = [[utf16 ''  lights on ''], [utf16 ''change scene'']]\<rparr> =
        [[utf16 ''  lights on '']] @ [utf16 ''change scene'' # []] \<and>
      encodeURIComponent (trim (utf16 ''change scene'')) = Inr (utf16 ''change scene'') \<and>
      service \<lparr>query = utf16 ''change scene'', bearer = witToken example_avr\<rparr> =
        Response 200 (JsonValue (Some [(''intent'', ''change_scene'')]))"
    unfolding first using utterance_change_scene query_change_scene service_answers(3)
    by simp
  then have second:
    "onresult service \<lparr>results = [[utf16 ''  lights on ''], [utf16 ''change scene'']]\<rparr>
      (state_of (onresult service \<lparr>results = [[utf16 ''  lights on '']]\<rparr> example_avr)) =
      Done (example_avr\<lparr>voiceLog :=
          voiceLog example_avr @ [Some [(''intent'', ''change_scene'')]],
        app := onVoiceCommand example_avr (Some [(''intent'', ''change_scene'')])
          (app example_avr)\<rparr>)"
    by (rule claim [THEN conjunct2, THEN conjunct2, THEN conjunct2, THEN conjunct2,
          THEN conjunct2, THEN conjunct2, THEN mp])
  have recognition: "voice example_avr = Some \<lparr>continuous = True, lang = ''en-US'', started = True\<rparr>"
    by (simp add: example_state_defs)
  show ?thesis
    unfolding second using first by (simp add: example_avr_voiceLog recognition)
qed

text \<open>
  A request that is rejected leaves the promise of the handler rejected and nothing
  reported; a request that the service refuses with status 401 and a JSON error body is
  taken for a classification, and \<open>undefined\<close> is forwarded to the application callback.
\<close>

theorem failed_classification_counterexample:
  "onresult service \<lparr>results = [[utf16 ''  lights on '']]\<rparr> example_avr =
     Throw FetchRejection example_avr \<and>
   service \<lparr>query = utf16 ''volume up'', bearer = witToken example_avr\<rparr> =
     Response 401 (JsonValue None) \<and>
   is_Done (onresult service \<lparr>results = [[utf16 ''volume up'']]\<rparr> example_avr) \<and>
   voiceLog (state_of (onresult service \<lparr>results = [[utf16 ''volume up'']]\<rparr> example_avr)) =
     [None]"
  by (simp add: onresult_def query_lights_on query_volume_up service_answers
      example_avr_voiceLog)

section \<open>Construction\<close>

text \<open>
  C10, as the code has it. The constructor returns an object exactly when the document
  has a body and the WebGL renderer can be created, whatever the options object, and also
  for no argument at all. In the object an omitted mode is \<open>AR\<close>, an omitted callback
  is a function that does nothing, and when the host has no speech recognition or the
  token is omitted, \<open>initVoiceInput\<close> has returned without creating or starting a
  recognition object. Without a body the constructor throws a TypeError, without WebGL
  what the renderer throws.
\<close>

theorem construction_fails_only_for_the_host:
  "((\<exists>st. new_OpenAVR (Object opts) env a = Inr st) \<longleftrightarrow>
      documentBody env \<and> rendererFailure env = None) \<and>
   ((\<exists>st. new_OpenAVR Undefined env a = Inr st) \<longleftrightarrow>
      documentBody env \<and> rendererFailure env = None) \<and>
   (new_OpenAVR (Object opts) env a = Inr st \<longrightarrow>
      (opt_mode opts = None \<longrightarrow> mode st = ''AR'') \<and>
      (opt_onGesture opts = None \<longrightarrow> onGesture st = (\<lambda>_ s. s)) \<and>
      (opt_onVoiceCommand opts = None \<longrightarrow> onVoiceCommand st = (\<lambda>_ s. s)) \<and>
      (\<not> speechRecognition env \<or> opt_witToken opts = None \<longrightarrow> voice st = None)) \<and>
   (\<not> documentBody env \<longrightarrow> new_OpenAVR (Object opts) env a = Inl TypeError) \<and>
   (documentBody env \<and> rendererFailure env = Some e \<longrightarrow>
      new_OpenAVR (Object opts) env a = Inl e)"
  by (auto simp add: new_OpenAVR_def construct_def fields_def create3DGUI_def
      initVoiceInput_def truthy_def split: option.splits)

theorem construction_fails_only_for_the_host_witness:
  "(\<exists>st. new_OpenAVR (Object \<lparr>opt_mode = None, opt_renderer = None, opt_onGesture = None,
        opt_onVoiceCommand = None, opt_witToken = None\<rparr>) host () = Inr st \<and>
     mode st = ''AR'' \<and> onGesture st = (\<lambda>_ s. s) \<and> onVoiceCommand st = (\<lambda>_ s. s) \<and>
     voice st = None) \<and>
   new_OpenAVR (Object example_options) host_without_webgl () = Inl (HostError ''Error'')"
proof -
  let ?none = "\<lparr>opt_mode = None, opt_renderer = None, opt_onGesture = None,
    opt_onVoiceCommand = None, opt_witToken = None\<rparr> :: unit options"
  have body: "documentBody host \<and> rendererFailure host = None"
    by (simp add: host_def)
  then obtain st where st: "new_OpenAVR (Object ?none) host () = Inr st"
    using construction_fails_only_for_the_host [of ?none host "()"] by blast
  then have "mode st = ''AR'' \<and> onGesture st = (\<lambda>_ s. s) \<and> onVoiceCommand st = (\<lambda>_ s. s) \<and>
      voice st = None"
    using construction_fails_only_for_the_host [of ?none host "()" st] by simp
  moreover have "new_OpenAVR (Object example_options) host_without_webgl () =
      Inl (HostError ''Error'')"
    using construction_fails_only_for_the_host
      [of example_options host_without_webgl "()" _ "HostError ''Error''"]
    by (simp add: host_without_webgl_def host_def)
  ultimately show ?thesis
    using st by blast
qed

text \<open>
  With the options of \<open>example.js\<close>, in a host that cannot create a WebGL context, the
  constructor throws.
\<close>

theorem construction_counterexample:
  "new_OpenAVR (Object example_options) host_without_webgl () = Inl (HostError ''Error'')"
  by (simp add: new_OpenAVR_def construct_def host_without_webgl_def host_def)

end
